theory Spec2Isabelle
  imports Main "HOL-Library.Word"
begin

section \<open>Strings\<close>

text \<open>
  Source strings are modelled as \<^typ>\<open>string\<close>. Case mapping and the character classes
  of the regular expressions are the ASCII ones; white space is the ASCII white space
  (tab, line feed, vertical tab, form feed, carriage return, space).
\<close>

definition isSpace :: "char \<Rightarrow> bool" where
  "isSpace c = (let n = (of_char c :: nat) in n = 32 \<or> (9 \<le> n \<and> n \<le> 13))"

definition lowerChar :: "char \<Rightarrow> char" where
  "lowerChar c = (let n = (of_char c :: nat) in if 65 \<le> n \<and> n \<le> 90 then char_of (n + 32) else c)"

definition toLowerCase :: "string \<Rightarrow> string" where
  "toLowerCase s = map lowerChar s"

definition trim :: "string \<Rightarrow> string" where
  "trim s = rev (dropWhile isSpace (rev (dropWhile isSpace s)))"

definition startsWith :: "string \<Rightarrow> string \<Rightarrow> bool" where
  "startsWith s p = (take (length p) s = p)"

definition endsWith :: "string \<Rightarrow> string \<Rightarrow> bool" where
  "endsWith s p = (length p \<le> length s \<and> drop (length s - length p) s = p)"

text \<open>\<open>s.includes(p)\<close>: \<open>p\<close> occurs in \<open>s\<close> at some position.\<close>

fun includes_str :: "string \<Rightarrow> string \<Rightarrow> bool" where
  "includes_str [] p = (p = [])"
| "includes_str (c # cs) p = (startsWith (c # cs) p \<or> includes_str cs p)"

text \<open>\<open>[a-z0-9]\<close> and \<open>[a-z0-9_-]\<close>.\<close>

definition isSlugChar :: "char \<Rightarrow> bool" where
  "isSlugChar c = (let n = (of_char c :: nat) in (97 \<le> n \<and> n \<le> 122) \<or> (48 \<le> n \<and> n \<le> 57))"

definition isRoomKeyChar :: "char \<Rightarrow> bool" where
  "isRoomKeyChar c = (isSlugChar c \<or> c = CHR ''_'' \<or> c = CHR ''-'')"

text \<open>\<open>.replace(/[^...]+/g, "-")\<close>: every maximal run of characters outside the class
  becomes one hyphen.\<close>

function replaceRuns :: "(char \<Rightarrow> bool) \<Rightarrow> string \<Rightarrow> string" where
  "replaceRuns ok [] = []"
| "replaceRuns ok (c # cs) =
     (if ok c then c # replaceRuns ok cs
      else CHR ''-'' # replaceRuns ok (dropWhile (\<lambda>x. \<not> ok x) cs))"
  by pat_completeness auto
termination
  by (relation "measure (\<lambda>(ok, s). length s)") (auto simp: less_Suc_eq_le length_dropWhile_le)

text \<open>\<open>.replace(/^-+|-+$/g, "")\<close>.\<close>

definition stripHyphens :: "string \<Rightarrow> string" where
  "stripHyphens s =
     rev (dropWhile (\<lambda>c. c = CHR ''-'') (rev (dropWhile (\<lambda>c. c = CHR ''-'') s)))"

definition slugifyId :: "string \<Rightarrow> string" where
  "slugifyId input = take 48 (stripHyphens (replaceRuns isSlugChar (toLowerCase (trim input))))"

definition sanitizeRoomKeySuffixToken :: "string \<Rightarrow> string" where
  "sanitizeRoomKeySuffixToken input =
     take 80 (stripHyphens (replaceRuns isRoomKeyChar (toLowerCase (trim input))))"

text \<open>\<open>s.split(/\s+/)\<close>: the pieces between maximal runs of white space.\<close>

function splitWs :: "string \<Rightarrow> string list" where
  "splitWs s =
     (let tok = takeWhile (\<lambda>c. \<not> isSpace c) s; rest = dropWhile (\<lambda>c. \<not> isSpace c) s
      in if rest = [] then [tok] else tok # splitWs (dropWhile isSpace (tl rest)))"
  by pat_completeness auto
termination
proof (relation "measure length", goal_cases)
  case 1
  show ?case by simp
next
  case (2 s tok rest)
  have "length (dropWhile isSpace (tl rest)) \<le> length (tl rest)"
    by (rule length_dropWhile_le)
  moreover have "length (tl rest) < length rest"
    using 2 by (cases rest) auto
  moreover have "length rest \<le> length s"
    using 2 by (simp add: length_dropWhile_le)
  ultimately show ?case by simp
qed

declare splitWs.simps [simp del]

text \<open>\<open>parts[i] ?? ""\<close>.\<close>

definition part :: "string list \<Rightarrow> nat \<Rightarrow> string" where
  "part ps i = (if i < length ps then ps ! i else [])"

text \<open>\<open>crypto.randomBytes(4).toString("hex")\<close>: eight lower-case hexadecimal digits.\<close>

definition hexDigit :: "nat \<Rightarrow> char" where
  "hexDigit n = (if n < 10 then char_of (48 + n) else char_of (87 + n))"

definition hexByte :: "8 word \<Rightarrow> string" where
  "hexByte b = [hexDigit (unat b div 16), hexDigit (unat b mod 16)]"

definition randomNonce :: "8 word \<times> 8 word \<times> 8 word \<times> 8 word \<Rightarrow> string" where
  "randomNonce bs = (case bs of (a, b, c, d) \<Rightarrow> hexByte a @ hexByte b @ hexByte c @ hexByte d)"

section \<open>Data model\<close>

record Project =
  id' :: string
  name :: string
  archived :: "bool option"
  createdAt :: string
  lastUsedAt :: "string option"
  note' :: "string option"
  tokens :: "string list option"

datatype WipeKind = KindAll | KindProject

record PendingWipe =
  nonce :: string
  createdAtMs :: int
  kind :: WipeKind
  projectId :: "string option"
  stamp :: string
  backupDir :: string

record PeerState =
  version :: int
  projectsEnabled :: "bool option"
  activeProjectId :: string
  previousProjectId :: "string option"
  effectiveFromMessageId :: "int option"
  lastProjectId :: "string option"
  pendingReset :: "bool option"
  projects :: "Project list"
  globalTokens :: "string list option"
  pendingWipe :: "PendingWipe option"

text \<open>The \<open>peers\<close> table of the persisted store, as \<open>loadStore\<close> returns it.\<close>

type_synonym Store = "string \<rightharpoonup> PeerState"

text \<open>\<open>!p.archived\<close>.\<close>

definition notArchived :: "Project \<Rightarrow> bool" where
  "notArchived p = (archived p \<noteq> Some True)"

section \<open>ensureDefaultProject\<close>

definition defaultProjectId :: "string \<Rightarrow> string" where
  "defaultProjectId defaultProjectName =
     ''proj-'' @ (let s = slugifyId defaultProjectName in if s = [] then ''general'' else s)"

definition isLegacyInbox :: "Project \<Rightarrow> bool" where
  "isLegacyInbox p =
     (let n = toLowerCase (trim (name p)); i = toLowerCase (trim (id' p))
      in n = ''inbox'' \<or> i = ''proj-inbox'' \<or> startsWith i ''inbox-'')"

text \<open>The migration loop: legacy projects are renamed to the configured default name.\<close>

definition migrateInbox :: "string \<Rightarrow> PeerState \<Rightarrow> bool \<times> PeerState" where
  "migrateInbox d peer =
     (list_ex (\<lambda>p. isLegacyInbox p \<and> name p \<noteq> d) (projects peer),
      peer\<lparr>projects := map (\<lambda>p. if isLegacyInbox p \<and> name p \<noteq> d then p\<lparr>name := d\<rparr> else p)
                              (projects peer)\<rparr>)"

definition createDefaultIfEmpty :: "string \<Rightarrow> string \<Rightarrow> PeerState \<Rightarrow> bool \<times> PeerState" where
  "createDefaultIfEmpty now d peer =
     (if projects peer = [] then
        (let i = defaultProjectId d;
             p = \<lparr>id' = i, name = d, archived = None, createdAt = now, lastUsedAt = Some now,
                  note' = None, tokens = Some []\<rparr>
         in (True, peer\<lparr>projects := projects peer @ [p], activeProjectId := i,
                        lastProjectId := Some i, pendingReset := Some False\<rparr>))
      else (False, peer))"

definition ensureTokens :: "PeerState \<Rightarrow> bool \<times> PeerState" where
  "ensureTokens peer =
     (list_ex (\<lambda>p. tokens p = None) (projects peer),
      peer\<lparr>projects := map (\<lambda>p. if tokens p = None then p\<lparr>tokens := Some []\<rparr> else p)
                              (projects peer)\<rparr>)"

definition ensureGlobalTokens :: "PeerState \<Rightarrow> bool \<times> PeerState" where
  "ensureGlobalTokens peer =
     (if globalTokens peer = None then (True, peer\<lparr>globalTokens := Some []\<rparr>) else (False, peer))"

text \<open>\<open>peer.projects.find((p) => !p.archived) ?? peer.projects[0]\<close>.\<close>

definition firstCandidate :: "Project list \<Rightarrow> Project option" where
  "firstCandidate ps =
     (case find notArchived ps of Some p \<Rightarrow> Some p
      | None \<Rightarrow> (case ps of [] \<Rightarrow> None | p # _ \<Rightarrow> Some p))"

definition ensureActive :: "PeerState \<Rightarrow> bool \<times> PeerState" where
  "ensureActive peer =
     (if activeProjectId peer = [] then
        (case firstCandidate (projects peer) of
           Some f \<Rightarrow> (True, peer\<lparr>activeProjectId := id' f\<rparr>)
         | None \<Rightarrow> (False, peer))
      else (False, peer))"

definition ensureEnabledFlag :: "PeerState \<Rightarrow> bool \<times> PeerState" where
  "ensureEnabledFlag peer =
     (if projectsEnabled peer = None then (True, peer\<lparr>projectsEnabled := Some False\<rparr>)
      else (False, peer))"

text \<open>
  \<open>ensureDefaultProject(peer, defaultProjectName)\<close>: the peer is mutated in place in the
  source; the model returns the \<open>changed\<close> flag together with the new peer. \<open>now\<close> is the
  value of \<open>nowIso()\<close>.
\<close>

definition ensureDefaultProject :: "string \<Rightarrow> string \<Rightarrow> PeerState \<Rightarrow> bool \<times> PeerState" where
  "ensureDefaultProject now d peer =
     (let (c1, p1) = migrateInbox d peer;
          (c2, p2) = createDefaultIfEmpty now d p1;
          (c3, p3) = ensureTokens p2;
          (c4, p4) = ensureGlobalTokens p3;
          (c5, p5) = ensureActive p4;
          (c6, p6) = ensureEnabledFlag p5
      in (c1 \<or> c2 \<or> c3 \<or> c4 \<or> c5 \<or> c6, p6))"

section \<open>Peer identity\<close>

record CommandCtx =
  channel :: "string option"
  senderId :: "string option"
  args :: "string option"
  messageId :: "int option"

definition buildPeerKeyFromCommandCtx :: "CommandCtx \<Rightarrow> string" where
  "buildPeerKeyFromCommandCtx ctx =
     (let ch = toLowerCase (case channel ctx of Some c \<Rightarrow> c | None \<Rightarrow> ''unknown'');
          sid = (case senderId ctx of Some s \<Rightarrow> s | None \<Rightarrow> ''unknown'')
      in ch @ '':'' @ sid)"

text \<open>
  \<open>sessionKey.toLowerCase().match(/:telegram:dm:([^:]+)$/)\<close>: the captured group has no
  colon and runs to the end of the string, so it is the text after the last colon; it must
  be non-empty and be preceded by \<open>:telegram:dm:\<close>.
\<close>

definition extractTelegramDmPeerIdFromSessionKey :: "string \<Rightarrow> string option" where
  "extractTelegramDmPeerIdFromSessionKey sessionKey =
     (let s = toLowerCase sessionKey;
          peer = rev (takeWhile (\<lambda>c. c \<noteq> CHR '':'') (rev s));
          before = rev (dropWhile (\<lambda>c. c \<noteq> CHR '':'') (rev s))
      in if peer \<noteq> [] \<and> endsWith before '':telegram:dm:'' then Some peer else None)"

record HookCtx =
  sessionKey :: "string option"
  channelId :: "string option"
  conversationId :: "string option"

definition buildPeerKeyFromBeforeAgentStart :: "HookCtx \<Rightarrow> string" where
  "buildPeerKeyFromBeforeAgentStart ctx =
     (let sessionKeyRaw = (case sessionKey ctx of Some s \<Rightarrow> s | None \<Rightarrow> []);
          sk = toLowerCase sessionKeyRaw;
          ch = toLowerCase (case channelId ctx of Some c \<Rightarrow> c | None \<Rightarrow> ''unknown'');
          tg = (if ch = ''telegram'' \<or> includes_str sk '':telegram:''
                then extractTelegramDmPeerIdFromSessionKey sk else None);
          conv = trim (case conversationId ctx of Some c \<Rightarrow> c | None \<Rightarrow> [])
      in case tg of
           Some peer \<Rightarrow> ''telegram:'' @ peer
         | None \<Rightarrow>
             if conv \<noteq> [] then ch @ '':'' @ conv
             else if sessionKeyRaw \<noteq> [] then ch @ '':'' @ sessionKeyRaw
             else ch @ '':unknown'')"

section \<open>Configuration, environment and replies\<close>

record Config =
  defaultProjectName :: string
  maxProjects :: int
  hardIsolationEnabled :: bool
  projectsUxParentDir :: string

text \<open>The outcome of copying the plugin directory to the backup target.\<close>

datatype CopyResult = CopyOk | CopyENOENT | CopyFailed string

text \<open>
  What one invocation reads from outside the store: the clock (\<open>Date.now()\<close>,
  \<open>nowIso()\<close>, \<open>formatBackupStamp()\<close>), the random sources (\<open>crypto.randomBytes(4)\<close>,
  the suffix of \<open>randomId("proj")\<close>) and the file system's answer to the backup copy.
  Every other file operation is taken to succeed.
\<close>

record Env =
  nowMs :: int
  nowIso :: string
  backupStamp :: string
  randomBytes4 :: "8 word \<times> 8 word \<times> 8 word \<times> 8 word"
  randomIdSuffix :: string
  backupCopy :: CopyResult

definition randomId :: "Env \<Rightarrow> string" where
  "randomId env = ''proj-'' @ randomIdSuffix env"

definition wipeConfirmTtlMs :: int where
  "wipeConfirmTtlMs = 2 * 60 * 1000"

definition backupDirFor :: "Config \<Rightarrow> string \<Rightarrow> string" where
  "backupDirFor cfg st = projectsUxParentDir cfg @ ''/backup_projects_ux_'' @ st"

text \<open>
  One constructor for each reply text of \<open>handleProjectsCommand\<close>, carrying the values the
  text interpolates. Projects are shown by name and id.
\<close>

datatype Reply =
    UsageNew
  | Status bool "(string \<times> string) option"
  | Help
  | DebugNoPeer
  | DebugInfo bool "(string \<times> string) option" "string option" "int option" bool
  | More
  | MemoryHelp
  | ResetMenu
  | NoProjectsState
  | NoRemovable
  | RemovePicker "(string \<times> string) list"
  | RefusedDefault
  | RefusedUnknownProject string
  | ArmedProject PendingWipe string string
  | UnknownResetAction
  | Cancelled
  | NoWipePending
  | RefusedExpired
  | RefusedMismatchScope
  | RefusedMismatchProject
  | WipedAll string
  | BackupFailed string
  | RefusedNoPeerState
  | WipedProject string string string bool string
  | ArmedAll PendingWipe
  | ProjectsOn "(string \<times> string) option"
  | ProjectsOff
  | ListNoPeer
  | Listing bool "(string \<times> string) option" "Project list"
  | ProjectLimitReached int
  | SwitchedExisting string string
  | Created string string
  | UsageSwitch
  | ProjectNotFound string
  | Switched string string

text \<open>A handler returns its reply, or \<open>Inl\<close> the error it threw, and the store it left.\<close>

type_synonym Outcome = "(string + Reply) \<times> Store"

section \<open>Store access\<close>

definition freshPeer :: PeerState where
  "freshPeer = \<lparr>version = 1, projectsEnabled = Some False, activeProjectId = [],
     previousProjectId = None, effectiveFromMessageId = None, lastProjectId = None,
     pendingReset = None, projects = [], globalTokens = None, pendingWipe = None\<rparr>"

definition withPeerState ::
  "Store \<Rightarrow> string \<Rightarrow> (PeerState \<Rightarrow> 'r \<times> PeerState) \<Rightarrow> 'r \<times> Store" where
  "withPeerState store peerKey fn =
     (let peer = (case store peerKey of
                    Some existing \<Rightarrow> if version existing = 1 then existing else freshPeer
                  | None \<Rightarrow> freshPeer);
          (result, peer') = fn peer
      in (result, store(peerKey \<mapsto> peer')))"

text \<open>\<open>if (changed) { store.peers[peerKey] = peer; await writeStoreAndRefreshCache(store) }\<close>.\<close>

definition persistIfChanged :: "Store \<Rightarrow> string \<Rightarrow> bool \<times> PeerState \<Rightarrow> Store" where
  "persistIfChanged store peerKey r = (if fst r then store(peerKey \<mapsto> snd r) else store)"

text \<open>\<open>Array.prototype.find\<close> returns a reference into the array; the model finds the
  index, so that a later assignment to the found project is an update at that index.\<close>

fun findIdx :: "('a \<Rightarrow> bool) \<Rightarrow> 'a list \<Rightarrow> nat option" where
  "findIdx P [] = None"
| "findIdx P (x # xs) = (if P x then Some 0 else map_option Suc (findIdx P xs))"

definition findProjectIdx :: "PeerState \<Rightarrow> string \<Rightarrow> nat option" where
  "findProjectIdx peer key =
     (let trimmed = trim key
      in if trimmed = [] then None
         else (case findIdx (\<lambda>p. id' p = trimmed) (projects peer) of
                 Some i \<Rightarrow> Some i
               | None \<Rightarrow> findIdx (\<lambda>p. toLowerCase (name p) = toLowerCase trimmed) (projects peer)))"

definition findProject :: "PeerState \<Rightarrow> string \<Rightarrow> Project option" where
  "findProject peer key = map_option (\<lambda>i. projects peer ! i) (findProjectIdx peer key)"

definition shown :: "Project \<Rightarrow> string \<times> string" where
  "shown p = (name p, id' p)"

text \<open>\<open>peer.projects.find((p) => p.id === peer.activeProjectId)\<close>.\<close>

definition activeProject :: "PeerState \<Rightarrow> Project option" where
  "activeProject peer = find (\<lambda>p. id' p = activeProjectId peer) (projects peer)"

text \<open>The bookkeeping of a switch to the project at index \<open>i\<close>.\<close>

definition switchTo :: "string \<Rightarrow> nat \<Rightarrow> PeerState \<Rightarrow> PeerState" where
  "switchTo now i peer =
     (let c = projects peer ! i
      in peer\<lparr>previousProjectId :=
                (if activeProjectId peer \<noteq> [] then Some (activeProjectId peer)
                 else previousProjectId peer),
              activeProjectId := id' c,
              lastProjectId := Some (id' c),
              projects := (projects peer)[i := c\<lparr>lastUsedAt := Some now\<rparr>],
              pendingReset := Some True\<rparr>)"

text \<open>\<open>if (ctx.channel === "telegram" && typeof messageId === "number")
  peer.effectiveFromMessageId = messageId\<close>.\<close>

definition stampEffectiveFrom :: "CommandCtx \<Rightarrow> PeerState \<Rightarrow> PeerState" where
  "stampEffectiveFrom ctx peer =
     (if channel ctx = Some ''telegram'' \<and> messageId ctx \<noteq> None
      then peer\<lparr>effectiveFromMessageId := messageId ctx\<rparr> else peer)"

section \<open>Destructive operations\<close>

definition wipeProjectsUxForPeer :: "Config \<Rightarrow> Env \<Rightarrow> Store \<Rightarrow> string \<Rightarrow> int option \<Rightarrow> Store" where
  "wipeProjectsUxForPeer cfg env store peerKey msgId =
     (let fresh = \<lparr>version = 1, projectsEnabled = Some False, activeProjectId = [],
                    previousProjectId = Some [], effectiveFromMessageId = msgId,
                    lastProjectId = Some [], pendingReset = Some False, projects = [],
                    globalTokens = Some [], pendingWipe = None\<rparr>
      in store(peerKey \<mapsto> snd (ensureDefaultProject (nowIso env) (defaultProjectName cfg) fresh)))"

text \<open>Throws (\<open>Inl\<close>) when the backup copy fails for a reason other than \<open>ENOENT\<close>.\<close>

definition backupAndResetProjectsUx ::
  "Config \<Rightarrow> Env \<Rightarrow> Store \<Rightarrow> string \<Rightarrow> PendingWipe \<Rightarrow> int option \<Rightarrow> (string + string) \<times> Store" where
  "backupAndResetProjectsUx cfg env store peerKey pending msgId =
     (case backupCopy env of
        CopyFailed code \<Rightarrow> (Inl code, store)
      | _ \<Rightarrow> (Inr (backupDir pending), wipeProjectsUxForPeer cfg env store peerKey msgId))"

text \<open>
  \<open>Inl\<close> is \<open>{ ok: false, error }\<close>; \<open>Inr\<close> carries \<open>backupDir\<close>, \<open>projectName\<close>,
  \<open>projectsEnabled\<close> and \<open>activeProjectName\<close> of \<open>{ ok: true, ... }\<close>. The refusals return
  before anything is written.
\<close>

definition backupAndWipeOneProject ::
  "Config \<Rightarrow> Env \<Rightarrow> Store \<Rightarrow> string \<Rightarrow> PendingWipe \<Rightarrow> string \<Rightarrow> int option
     \<Rightarrow> (Reply + string \<times> string \<times> bool \<times> string) \<times> Store" where
  "backupAndWipeOneProject cfg env store peerKey pending pid msgId =
     (case backupCopy env of
        CopyFailed code \<Rightarrow> (Inl (BackupFailed code), store)
      | _ \<Rightarrow>
        (case store peerKey of
           None \<Rightarrow> (Inl RefusedNoPeerState, store)
         | Some peer0 \<Rightarrow>
             let d = defaultProjectName cfg;
                 peer2 = snd (ensureDefaultProject (nowIso env) d (peer0\<lparr>pendingWipe := None\<rparr>));
                 defId = defaultProjectId d
             in if pid = defId then (Inl RefusedDefault, store)
                else (case find (\<lambda>p. id' p = pid \<and> notArchived p) (projects peer2) of
                        None \<Rightarrow> (Inl (RefusedUnknownProject pid), store)
                      | Some target \<Rightarrow>
                          let peer3 = peer2\<lparr>projects := filter (\<lambda>p. id' p \<noteq> pid) (projects peer2)\<rparr>;
                              wasActive = (activeProjectId peer3 = pid);
                              wasPrev = (previousProjectId peer3 = Some pid);
                              wasLast = (lastProjectId peer3 = Some pid);
                              peer4 = (if wasActive \<or> wasPrev \<or> wasLast
                                       then peer3\<lparr>activeProjectId := defId,
                                                  previousProjectId := None,
                                                  lastProjectId := Some defId,
                                                  pendingReset := Some True\<rparr>
                                       else peer3);
                              peer5 = (if projectsEnabled peer4 \<noteq> Some True \<and>
                                          projectsEnabled peer4 \<noteq> Some False
                                       then peer4\<lparr>projectsEnabled := Some False\<rparr> else peer4);
                              peer6 = (case msgId of
                                         Some m \<Rightarrow> peer5\<lparr>effectiveFromMessageId := Some m\<rparr>
                                       | None \<Rightarrow> peer5);
                              peer7 = snd (ensureDefaultProject (nowIso env) d peer6);
                              active = (case activeProject peer7 of
                                          Some a \<Rightarrow> Some a
                                        | None \<Rightarrow> (case projects peer7 of [] \<Rightarrow> None
                                                   | a # _ \<Rightarrow> Some a))
                          in (Inr (backupDir pending, name target, projectsEnabled peer7 = Some True,
                                   (case active of Some a \<Rightarrow> name a | None \<Rightarrow> d)),
                              store(peerKey \<mapsto> peer7)))))"

section \<open>The projects command\<close>

definition handleStatus :: "Config \<Rightarrow> Env \<Rightarrow> Store \<Rightarrow> string \<Rightarrow> Outcome" where
  "handleStatus cfg env store peerKey =
     (case store peerKey of
        None \<Rightarrow> (Inr (Status False None), store)
      | Some peer0 \<Rightarrow>
          let r = ensureDefaultProject (nowIso env) (defaultProjectName cfg) peer0; peer = snd r
          in (Inr (Status (projectsEnabled peer = Some True) (map_option shown (activeProject peer))),
              persistIfChanged store peerKey r))"

definition handleDebug :: "Config \<Rightarrow> Env \<Rightarrow> Store \<Rightarrow> string \<Rightarrow> Outcome" where
  "handleDebug cfg env store peerKey =
     (case store peerKey of
        None \<Rightarrow> (Inr DebugNoPeer, store)
      | Some peer0 \<Rightarrow>
          let r = ensureDefaultProject (nowIso env) (defaultProjectName cfg) peer0; peer = snd r;
              enabled = (projectsEnabled peer = Some True);
              active = activeProject peer;
              suffix = (case active of Some a \<Rightarrow> sanitizeRoomKeySuffixToken (id' a) | None \<Rightarrow> [])
          in (Inr (DebugInfo enabled (map_option shown active) (previousProjectId peer)
                     (effectiveFromMessageId peer)
                     (hardIsolationEnabled cfg \<and> enabled \<and> suffix \<noteq> [])),
              persistIfChanged store peerKey r))"

definition handleReset :: "Config \<Rightarrow> Env \<Rightarrow> Store \<Rightarrow> string \<Rightarrow> string list \<Rightarrow> Outcome" where
  "handleReset cfg env store peerKey parts =
     (let action = toLowerCase (part parts 1)
      in if action = [] then (Inr ResetMenu, store)
         else if action = ''remove'' then
           (let pid = part parts 2
            in case store peerKey of
                 None \<Rightarrow> (Inr NoProjectsState, store)
               | Some peer0 \<Rightarrow>
                   let r = ensureDefaultProject (nowIso env) (defaultProjectName cfg) peer0;
                       peer = snd r;
                       store1 = persistIfChanged store peerKey r;
                       defId = defaultProjectId (defaultProjectName cfg);
                       candidates = filter (\<lambda>p. notArchived p \<and> id' p \<noteq> defId) (projects peer)
                   in if pid = [] then
                        (if candidates = [] then (Inr NoRemovable, store1)
                         else (Inr (RemovePicker (map shown candidates)), store1))
                      else if pid = defId then (Inr RefusedDefault, store1)
                      else (case find (\<lambda>p. id' p = pid \<and> notArchived p) (projects peer) of
                              None \<Rightarrow> (Inr (RefusedUnknownProject pid), store1)
                            | Some project \<Rightarrow>
                                let pending = \<lparr>nonce = randomNonce (randomBytes4 env),
                                               createdAtMs = nowMs env, kind = KindProject,
                                               projectId = Some pid, stamp = backupStamp env,
                                               backupDir = backupDirFor cfg (backupStamp env)\<rparr>
                                in (Inr (ArmedProject pending (name project) (id' project)),
                                    store1(peerKey \<mapsto> peer\<lparr>pendingWipe := Some pending\<rparr>))))
         else (Inr UnknownResetAction, store))"

text \<open>The peer the \<open>wipe\<close> subcommand works on when the store has none.\<close>

definition wipeBlankPeer :: PeerState where
  "wipeBlankPeer = freshPeer\<lparr>globalTokens := Some []\<rparr>"

text \<open>\<open>clearPending\<close>: writes only when a wipe is pending.\<close>

definition clearPending :: "Store \<Rightarrow> string \<Rightarrow> PeerState \<Rightarrow> Store" where
  "clearPending store peerKey peer =
     (if pendingWipe peer \<noteq> None then store(peerKey \<mapsto> peer\<lparr>pendingWipe := None\<rparr>) else store)"

text \<open>Confirm ALL: \<open>/projects wipe confirm <nonce>\<close>.\<close>

definition wipeConfirmAll ::
  "Config \<Rightarrow> Env \<Rightarrow> Store \<Rightarrow> string \<Rightarrow> PeerState \<Rightarrow> string list \<Rightarrow> int option \<Rightarrow> Outcome" where
  "wipeConfirmAll cfg env store peerKey peer parts msgId =
     (let argNonce = part parts 2
      in case pendingWipe peer of
           None \<Rightarrow> (Inr NoWipePending, store)
         | Some pending \<Rightarrow>
             let expired = (nowMs env - createdAtMs pending > wipeConfirmTtlMs);
                 mismatch = (argNonce = [] \<or> argNonce \<noteq> nonce pending \<or> kind pending \<noteq> KindAll)
             in if expired then (Inr RefusedExpired, clearPending store peerKey peer)
                else if mismatch then (Inr RefusedMismatchScope, clearPending store peerKey peer)
                else (case backupAndResetProjectsUx cfg env (clearPending store peerKey peer)
                             peerKey pending msgId of
                        (Inl err, store') \<Rightarrow> (Inl err, store')
                      | (Inr dir, store') \<Rightarrow> (Inr (WipedAll dir), store')))"

text \<open>Confirm ONE: \<open>/projects wipe project confirm <nonce> <id>\<close>.\<close>

definition wipeConfirmOne ::
  "Config \<Rightarrow> Env \<Rightarrow> Store \<Rightarrow> string \<Rightarrow> PeerState \<Rightarrow> string list \<Rightarrow> int option \<Rightarrow> Outcome" where
  "wipeConfirmOne cfg env store peerKey peer parts msgId =
     (let argNonce = part parts 3; pid = part parts 4
      in case pendingWipe peer of
           None \<Rightarrow> (Inr NoWipePending, store)
         | Some pending \<Rightarrow>
             let expired = (nowMs env - createdAtMs pending > wipeConfirmTtlMs);
                 mismatch = (argNonce = [] \<or> argNonce \<noteq> nonce pending \<or>
                             kind pending \<noteq> KindProject \<or>
                             (case projectId pending of None \<Rightarrow> True | Some t \<Rightarrow> t = []) \<or>
                             projectId pending \<noteq> Some pid)
             in if expired then (Inr RefusedExpired, clearPending store peerKey peer)
                else if mismatch then (Inr RefusedMismatchProject, clearPending store peerKey peer)
                else (case backupAndWipeOneProject cfg env (clearPending store peerKey peer)
                             peerKey pending pid msgId of
                        (Inl err, store') \<Rightarrow> (Inr err, store')
                      | (Inr (dir, projectName, enabled, activeName), store') \<Rightarrow>
                          (Inr (WipedProject projectName pid dir enabled activeName), store')))"

text \<open>Arm WIPE ALL: \<open>/projects wipe\<close>.\<close>

definition wipeArmAll :: "Config \<Rightarrow> Env \<Rightarrow> Store \<Rightarrow> string \<Rightarrow> PeerState \<Rightarrow> Outcome" where
  "wipeArmAll cfg env store peerKey peer =
     (let pending = \<lparr>nonce = randomNonce (randomBytes4 env), createdAtMs = nowMs env,
                      kind = KindAll, projectId = None, stamp = backupStamp env,
                      backupDir = backupDirFor cfg (backupStamp env)\<rparr>
      in (Inr (ArmedAll pending), store(peerKey \<mapsto> peer\<lparr>pendingWipe := Some pending\<rparr>)))"

definition handleWipe ::
  "Config \<Rightarrow> Env \<Rightarrow> Store \<Rightarrow> string \<Rightarrow> string list \<Rightarrow> int option \<Rightarrow> Outcome" where
  "handleWipe cfg env store peerKey parts msgId =
     (let peer = (case store peerKey of Some p \<Rightarrow> p | None \<Rightarrow> wipeBlankPeer);
          action = toLowerCase (part parts 1)
      in if action = ''cancel'' then (Inr Cancelled, clearPending store peerKey peer)
         else if action = ''confirm'' then wipeConfirmAll cfg env store peerKey peer parts msgId
         else if action = ''project'' \<and> toLowerCase (part parts 2) = ''confirm''
           then wipeConfirmOne cfg env store peerKey peer parts msgId
         else wipeArmAll cfg env store peerKey peer)"

definition handleOn :: "Config \<Rightarrow> Env \<Rightarrow> Store \<Rightarrow> CommandCtx \<Rightarrow> string \<Rightarrow> Outcome" where
  "handleOn cfg env store ctx peerKey =
     (case withPeerState store peerKey (\<lambda>peer0.
        let peer = (snd (ensureDefaultProject (nowIso env) (defaultProjectName cfg) peer0))
                     \<lparr>projectsEnabled := Some True\<rparr>;
            ps = projects peer;
            last = (case lastProjectId peer of
                      Some l \<Rightarrow> if l \<noteq> [] then findIdx (\<lambda>p. id' p = l \<and> notArchived p) ps else None
                    | None \<Rightarrow> None);
            active = (if activeProjectId peer \<noteq> []
                      then findIdx (\<lambda>p. id' p = activeProjectId peer \<and> notArchived p) ps else None);
            chosen = (case last of Some i \<Rightarrow> Some i | None \<Rightarrow>
                     (case active of Some i \<Rightarrow> Some i | None \<Rightarrow>
                     (case findIdx notArchived ps of Some i \<Rightarrow> Some i | None \<Rightarrow>
                        (if ps = [] then None else Some 0))));
            peer' = (case chosen of Some i \<Rightarrow> switchTo (nowIso env) i peer | None \<Rightarrow> peer)
        in (map_option (\<lambda>i. shown (ps ! i)) chosen, stampEffectiveFrom ctx peer')) of
        (chosen, store') \<Rightarrow> (Inr (ProjectsOn chosen), store'))"

definition handleOff :: "Config \<Rightarrow> Env \<Rightarrow> Store \<Rightarrow> CommandCtx \<Rightarrow> string \<Rightarrow> Outcome" where
  "handleOff cfg env store ctx peerKey =
     (case withPeerState store peerKey (\<lambda>peer0.
        let peer = (snd (ensureDefaultProject (nowIso env) (defaultProjectName cfg) peer0))
                     \<lparr>projectsEnabled := Some False\<rparr>
        in ((), stampEffectiveFrom ctx peer)) of
        (_, store') \<Rightarrow> (Inr ProjectsOff, store'))"

definition handleList :: "Config \<Rightarrow> Env \<Rightarrow> Store \<Rightarrow> string \<Rightarrow> Outcome" where
  "handleList cfg env store peerKey =
     (case store peerKey of
        None \<Rightarrow> (Inr ListNoPeer, store)
      | Some peer0 \<Rightarrow>
          let r = ensureDefaultProject (nowIso env) (defaultProjectName cfg) peer0; peer = snd r
          in (Inr (Listing (projectsEnabled peer = Some True) (map_option shown (activeProject peer))
                     (projects peer)),
              persistIfChanged store peerKey r))"

text \<open>The callback \<open>new\<close> passes to \<open>withPeerState\<close>.\<close>

definition newInPeer :: "Config \<Rightarrow> Env \<Rightarrow> CommandCtx \<Rightarrow> string \<Rightarrow> PeerState \<Rightarrow> Reply \<times> PeerState" where
  "newInPeer cfg env ctx nm peer0 =
     (let peer = (snd (ensureDefaultProject (nowIso env) (defaultProjectName cfg) peer0))
                   \<lparr>projectsEnabled := Some True\<rparr>;
          ps = projects peer
      in case findIdx (\<lambda>p. notArchived p \<and> toLowerCase (name p) = toLowerCase nm) ps of
           Some i \<Rightarrow>
             (SwitchedExisting (name (ps ! i)) (id' (ps ! i)),
              stampEffectiveFrom ctx (switchTo (nowIso env) i peer))
         | None \<Rightarrow>
             let slug = slugifyId nm;
                 finalId = (if slug \<noteq> [] then ''proj-'' @ slug else randomId env)
             in if int (length (filter notArchived ps)) \<ge> maxProjects cfg
                then (ProjectLimitReached (maxProjects cfg), peer)
                else
                  let project = \<lparr>id' = finalId, name = nm, archived = None,
                                   createdAt = nowIso env, lastUsedAt = Some (nowIso env),
                                   note' = None, tokens = None\<rparr>
                  in (Created nm finalId,
                      stampEffectiveFrom ctx
                        (peer\<lparr>projects := ps @ [project],
                              previousProjectId :=
                                (if activeProjectId peer \<noteq> [] then Some (activeProjectId peer)
                                 else previousProjectId peer),
                              activeProjectId := finalId,
                              lastProjectId := Some finalId,
                              pendingReset := Some True\<rparr>)))"

definition handleNew :: "Config \<Rightarrow> Env \<Rightarrow> Store \<Rightarrow> CommandCtx \<Rightarrow> string \<Rightarrow> string \<Rightarrow> Outcome" where
  "handleNew cfg env store ctx peerKey a =
     (let nm = trim (drop 3 a)
      in if nm = [] then (Inr UsageNew, store)
         else (case withPeerState store peerKey (newInPeer cfg env ctx nm) of
                 (reply, store') \<Rightarrow> (Inr reply, store')))"

text \<open>The callback \<open>switch\<close> passes to \<open>withPeerState\<close>.\<close>

definition switchInPeer :: "Config \<Rightarrow> Env \<Rightarrow> CommandCtx \<Rightarrow> string \<Rightarrow> PeerState \<Rightarrow> Reply \<times> PeerState" where
  "switchInPeer cfg env ctx key peer0 =
     (let peer = (snd (ensureDefaultProject (nowIso env) (defaultProjectName cfg) peer0))
                   \<lparr>projectsEnabled := Some True\<rparr>
      in case findProjectIdx peer key of
           None \<Rightarrow> (ProjectNotFound key, peer)
         | Some i \<Rightarrow>
             if archived (projects peer ! i) = Some True then (ProjectNotFound key, peer)
             else (Switched (name (projects peer ! i)) (id' (projects peer ! i)),
                   stampEffectiveFrom ctx (switchTo (nowIso env) i peer)))"

definition handleSwitch :: "Config \<Rightarrow> Env \<Rightarrow> Store \<Rightarrow> CommandCtx \<Rightarrow> string \<Rightarrow> string \<Rightarrow> Outcome" where
  "handleSwitch cfg env store ctx peerKey a =
     (let key = trim (drop 6 a)
      in if key = [] then (Inr UsageSwitch, store)
         else (case withPeerState store peerKey (switchInPeer cfg env ctx key) of
                 (reply, store') \<Rightarrow> (Inr reply, store')))"

text \<open>\<open>args ? args.split(/\s+/) : []\<close> on the trimmed arguments.\<close>

definition partsOf :: "CommandCtx \<Rightarrow> string list" where
  "partsOf ctx =
     (let a = trim (case args ctx of Some x \<Rightarrow> x | None \<Rightarrow> [])
      in if a = [] then [] else splitWs a)"

definition handleProjectsCommand :: "Config \<Rightarrow> Env \<Rightarrow> Store \<Rightarrow> CommandCtx \<Rightarrow> Outcome" where
  "handleProjectsCommand cfg env store ctx =
     (let peerKey = buildPeerKeyFromCommandCtx ctx;
          a = trim (case args ctx of Some x \<Rightarrow> x | None \<Rightarrow> []);
          parts = partsOf ctx;
          sub = toLowerCase (part parts 0)
      in if a = ''new'' then (Inr UsageNew, store)
         else if sub = [] then handleStatus cfg env store peerKey
         else if sub = ''help'' then (Inr Help, store)
         else if sub = ''debug'' then handleDebug cfg env store peerKey
         else if sub = ''more'' then (Inr More, store)
         else if sub = ''memory'' then (Inr MemoryHelp, store)
         else if sub = ''reset'' then handleReset cfg env store peerKey parts
         else if sub = ''wipe'' then handleWipe cfg env store peerKey parts (messageId ctx)
         else if sub = ''on'' then handleOn cfg env store ctx peerKey
         else if sub = ''off'' then handleOff cfg env store ctx peerKey
         else if sub = ''list'' then handleList cfg env store peerKey
         else if sub = ''new'' then handleNew cfg env store ctx peerKey a
         else if sub = ''switch'' then handleSwitch cfg env store ctx peerKey a
         else (Inr Help, store))"

section \<open>Hard isolation: the room key\<close>

record RoomKeyEvent =
  ev_channel :: "string option"
  ev_peerKind :: "string option"
  ev_peerId :: "string option"
  ev_messageId :: "int option"
  ev_roomKey :: "string option"

text \<open>The \<open>resolve_room_key\<close> handler: the replacement room key, if any, and the store.\<close>

definition resolveRoomKey :: "Config \<Rightarrow> Env \<Rightarrow> Store \<Rightarrow> RoomKeyEvent \<Rightarrow> string option \<times> Store" where
  "resolveRoomKey cfg env store event =
     (if \<not> hardIsolationEnabled cfg then (None, store)
      else if ev_channel event \<noteq> Some ''telegram'' then (None, store)
      else if ev_peerKind event \<noteq> Some ''dm'' then (None, store)
      else
        let peerId = trim (case ev_peerId event of Some x \<Rightarrow> x | None \<Rightarrow> [])
        in if peerId = [] then (None, store)
           else
             (case store (''telegram:'' @ peerId) of
                None \<Rightarrow> (None, store)
              | Some peer0 \<Rightarrow>
                  let r = ensureDefaultProject (nowIso env) (defaultProjectName cfg) peer0;
                      peer = snd r;
                      store1 = persistIfChanged store (''telegram:'' @ peerId) r
                  in if projectsEnabled peer \<noteq> Some True then (None, store1)
                     else
                       let activeId =
                             (case (ev_messageId event, effectiveFromMessageId peer) of
                                (Some msgId, Some effectiveFrom) \<Rightarrow>
                                  if msgId < effectiveFrom
                                  then (case previousProjectId peer of
                                          Some prev \<Rightarrow> prev | None \<Rightarrow> activeProjectId peer)
                                  else activeProjectId peer
                              | _ \<Rightarrow> activeProjectId peer);
                           suffix = sanitizeRoomKeySuffixToken activeId
                       in if suffix = [] then (None, store1)
                          else
                            let base = trim (case ev_roomKey event of Some x \<Rightarrow> x | None \<Rightarrow> [])
                            in if base = [] then (None, store1)
                               else (Some (base @ '':proj:'' @ suffix), store1)))"

section \<open>Auxiliary notions\<close>

text \<open>What \<open>ensureDefaultProject\<close> does to one project, and the peers it leaves.\<close>

definition renameLegacy :: "string \<Rightarrow> Project \<Rightarrow> Project" where
  "renameLegacy d p = (if isLegacyInbox p \<and> name p \<noteq> d then p\<lparr>name := d\<rparr> else p)"

definition initTokens :: "Project \<Rightarrow> Project" where
  "initTokens p = (if tokens p = None then p\<lparr>tokens := Some []\<rparr> else p)"

definition healed :: "string \<Rightarrow> PeerState \<Rightarrow> bool" where
  "healed d h = (projects h \<noteq> [] \<and> \<not> list_ex (\<lambda>p. isLegacyInbox p \<and> name p \<noteq> d) (projects h) \<and>
     \<not> list_ex (\<lambda>p. tokens p = None) (projects h) \<and> globalTokens h \<noteq> None \<and> projectsEnabled h \<noteq> None)"

text \<open>Replies that arm a wipe, replies that report an executed wipe, and the other replies.\<close>

fun armedPending :: "Reply \<Rightarrow> PendingWipe option" where
  "armedPending (ArmedAll pw) = Some pw"
| "armedPending (ArmedProject pw _ _) = Some pw"
| "armedPending _ = None"

fun wipedKind :: "Reply \<Rightarrow> WipeKind option" where
  "wipedKind (WipedAll _) = Some KindAll"
| "wipedKind (WipedProject _ _ _ _ _) = Some KindProject"
| "wipedKind _ = None"

definition quiet :: "string + Reply \<Rightarrow> bool" where
  "quiet r = (case r of Inl _ \<Rightarrow> False | Inr rep \<Rightarrow> armedPending rep = None \<and> wipedKind rep = None)"



definition guardRefusal :: "string + Reply \<Rightarrow> bool" where
  "guardRefusal r =
     (r = Inr RefusedExpired \<or> r = Inr RefusedMismatchScope \<or> r = Inr RefusedMismatchProject)"

text \<open>The replies that refuse an operation.\<close>

fun refusal :: "Reply \<Rightarrow> bool" where
  "refusal NoProjectsState = True"
| "refusal RefusedDefault = True"
| "refusal (RefusedUnknownProject _) = True"
| "refusal NoWipePending = True"
| "refusal RefusedExpired = True"
| "refusal RefusedMismatchScope = True"
| "refusal RefusedMismatchProject = True"
| "refusal (BackupFailed _) = True"
| "refusal RefusedNoPeerState = True"
| "refusal _ = False"

section \<open>Example data\<close>

definition exGeneral :: Project where
  "exGeneral = \<lparr>id' = ''proj-general'', name = ''General'', archived = None, createdAt = ''t0'',
     lastUsedAt = Some ''t0'', note' = None, tokens = Some []\<rparr>"

definition exAlpha :: Project where
  "exAlpha = \<lparr>id' = ''proj-alpha'', name = ''Alpha'', archived = None, createdAt = ''t1'',
     lastUsedAt = Some ''t1'', note' = None, tokens = Some []\<rparr>"

definition exPeer :: PeerState where
  "exPeer = \<lparr>version = 1, projectsEnabled = Some False, activeProjectId = ''proj-general'',
     previousProjectId = None, effectiveFromMessageId = None, lastProjectId = Some ''proj-general'',
     pendingReset = Some False, projects = [exGeneral, exAlpha], globalTokens = Some [],
     pendingWipe = None\<rparr>"

definition exCfg :: Config where
  "exCfg = \<lparr>defaultProjectName = ''General'', maxProjects = 50, hardIsolationEnabled = True,
     projectsUxParentDir = ''/home/u/.openclaw''\<rparr>"

definition exEnv :: Env where
  "exEnv = \<lparr>nowMs = 1000000, nowIso = ''t5'', backupStamp = ''20260101-120000'',
     randomBytes4 = (0xa1, 0xb2, 0xc3, 0xd4), randomIdSuffix = ''k3x-1f2e3d4c'',
     backupCopy = CopyOk\<rparr>"

definition exPeerOn :: PeerState where
  "exPeerOn = exPeer\<lparr>projectsEnabled := Some True, activeProjectId := ''proj-alpha'',
     previousProjectId := Some ''proj-general'', effectiveFromMessageId := Some 10,
     lastProjectId := Some ''proj-alpha''\<rparr>"

definition exStoreOn :: Store where
  "exStoreOn = Map.empty(''telegram:42'' \<mapsto> exPeerOn)"

definition exEvent :: "int \<Rightarrow> RoomKeyEvent" where
  "exEvent m = \<lparr>ev_channel = Some ''telegram'', ev_peerKind = Some ''dm'', ev_peerId = Some ''42'',
     ev_messageId = Some m, ev_roomKey = Some ''agent:main:telegram:dm:42''\<rparr>"

definition exArmedProject :: PendingWipe where
  "exArmedProject = \<lparr>nonce = ''0a0b0c0d'', createdAtMs = 990000, kind = KindProject,
     projectId = Some ''proj-alpha'', stamp = ''20260101-115900'',
     backupDir = ''/home/u/.openclaw/backup_projects_ux_20260101-115900''\<rparr>"

definition exStoreArmed :: Store where
  "exStoreArmed = Map.empty(''telegram:42'' \<mapsto> exPeer\<lparr>pendingWipe := Some exArmedProject\<rparr>)"

definition exCtx :: "string \<Rightarrow> CommandCtx" where
  "exCtx a = \<lparr>channel = Some ''telegram'', senderId = Some ''42'', args = Some a, messageId = Some 3\<rparr>"

definition exStore :: Store where
  "exStore = Map.empty(''telegram:42'' \<mapsto> exPeer)"


section \<open>Properties of ensureDefaultProject\<close>

lemma firstCandidate_Some:
  "firstCandidate ps = Some f \<Longrightarrow> f \<in> set ps \<and> (notArchived f \<or> (\<forall>p\<in>set ps. \<not> notArchived p))"
  by (auto simp: firstCandidate_def find_Some_iff find_None_iff split: option.splits list.splits)

lemma firstCandidate_None: "firstCandidate ps = None \<longleftrightarrow> ps = []"
  by (auto simp: firstCandidate_def find_None_iff split: option.splits list.splits)

lemmas ensureDefault_defs = ensureDefaultProject_def migrateInbox_def createDefaultIfEmpty_def
  ensureTokens_def ensureGlobalTokens_def ensureActive_def ensureEnabledFlag_def

lemma defaultProjectId_nonempty: "defaultProjectId d \<noteq> []"
  by (simp add: defaultProjectId_def)

lemma ensureDefault_projects_nonempty:
  "projects (snd (ensureDefaultProject now d peer)) \<noteq> []"
  by (simp add: ensureDefault_defs Let_def split: option.splits)

lemma ensureDefault_active_kept:
  "projects peer \<noteq> [] \<Longrightarrow> activeProjectId peer \<noteq> [] \<Longrightarrow>
   activeProjectId (snd (ensureDefaultProject now d peer)) = activeProjectId peer"
  by (simp add: ensureDefault_defs Let_def split: option.splits)

lemma ensureDefault_active_chosen:
  assumes "projects peer = [] \<or> activeProjectId peer = []"
  shows "\<exists>q \<in> set (projects (snd (ensureDefaultProject now d peer))).
           id' q = activeProjectId (snd (ensureDefaultProject now d peer)) \<and>
           (notArchived q \<or> (\<forall>p \<in> set (projects (snd (ensureDefaultProject now d peer))). \<not> notArchived p))"
proof (cases "projects peer = []")
  case True
  then show ?thesis
    by (simp add: ensureDefault_defs Let_def defaultProjectId_nonempty notArchived_def)
next
  case False
  with assms have a: "activeProjectId peer = []" by simp
  let ?ps = "map (\<lambda>p. if tokens p = None then p\<lparr>tokens := Some []\<rparr> else p)
               (map (\<lambda>p. if isLegacyInbox p \<and> name p \<noteq> d then p\<lparr>name := d\<rparr> else p) (projects peer))"
  from False have ne: "?ps \<noteq> []" by simp
  then obtain f where f: "firstCandidate ?ps = Some f"
    using firstCandidate_None [of ?ps] by (cases "firstCandidate ?ps") auto
  from firstCandidate_Some [OF f] have fin: "f \<in> set ?ps"
    and far: "notArchived f \<or> (\<forall>p\<in>set ?ps. \<not> notArchived p)" by blast+
  have h: "projects (snd (ensureDefaultProject now d peer)) = ?ps"
    using False by (simp add: ensureDefault_defs Let_def split: option.splits)
  have ha: "activeProjectId (snd (ensureDefaultProject now d peer)) = id' f"
    using False a f by (simp add: ensureDefault_defs Let_def split: option.splits)
  show ?thesis unfolding h ha using fin far by blast
qed

lemma isLegacyInbox_tokens [simp]: "isLegacyInbox (p\<lparr>tokens := t\<rparr>) = isLegacyInbox p"
  by (simp add: isLegacyInbox_def)

lemma ensureDefault_snd:
  "snd (ensureDefaultProject now d peer) =
     snd (ensureEnabledFlag (snd (ensureActive (snd (ensureGlobalTokens (snd (ensureTokens
       (snd (createDefaultIfEmpty now d (snd (migrateInbox d peer)))))))))))"
  by (simp add: ensureDefaultProject_def split: prod.splits)

lemma ensureDefault_fst:
  "fst (ensureDefaultProject now d peer) =
     (let p1 = snd (migrateInbox d peer); p2 = snd (createDefaultIfEmpty now d p1);
          p3 = snd (ensureTokens p2); p4 = snd (ensureGlobalTokens p3); p5 = snd (ensureActive p4)
      in fst (migrateInbox d peer) \<or> fst (createDefaultIfEmpty now d p1) \<or> fst (ensureTokens p2) \<or>
         fst (ensureGlobalTokens p3) \<or> fst (ensureActive p4) \<or> fst (ensureEnabledFlag p5))"
  by (simp add: ensureDefaultProject_def split: prod.splits)

lemma ensureEnabledFlag_fields [simp]:
  "projects (snd (ensureEnabledFlag p)) = projects p"
  "activeProjectId (snd (ensureEnabledFlag p)) = activeProjectId p"
  "globalTokens (snd (ensureEnabledFlag p)) = globalTokens p"
  "projectsEnabled (snd (ensureEnabledFlag p)) = (case projectsEnabled p of None \<Rightarrow> Some False | Some b \<Rightarrow> Some b)"
  by (auto simp: ensureEnabledFlag_def)

lemma ensureActive_fields [simp]:
  "projects (snd (ensureActive p)) = projects p"
  "globalTokens (snd (ensureActive p)) = globalTokens p"
  "projectsEnabled (snd (ensureActive p)) = projectsEnabled p"
  by (simp_all add: ensureActive_def split: option.splits)

lemma ensureGlobalTokens_fields [simp]:
  "projects (snd (ensureGlobalTokens p)) = projects p"
  "activeProjectId (snd (ensureGlobalTokens p)) = activeProjectId p"
  "globalTokens (snd (ensureGlobalTokens p)) = (case globalTokens p of None \<Rightarrow> Some [] | Some g \<Rightarrow> Some g)"
  "projectsEnabled (snd (ensureGlobalTokens p)) = projectsEnabled p"
  by (auto simp: ensureGlobalTokens_def)

lemma ensureTokens_fields [simp]:
  "projects (snd (ensureTokens p)) = map initTokens (projects p)"
  "activeProjectId (snd (ensureTokens p)) = activeProjectId p"
  "globalTokens (snd (ensureTokens p)) = globalTokens p"
  "projectsEnabled (snd (ensureTokens p)) = projectsEnabled p"
  by (simp_all add: ensureTokens_def initTokens_def [abs_def])

lemma createDefault_fields [simp]:
  "projects (snd (createDefaultIfEmpty now d p)) =
     (if projects p = []
      then [\<lparr>id' = defaultProjectId d, name = d, archived = None, createdAt = now,
              lastUsedAt = Some now, note' = None, tokens = Some []\<rparr>]
      else projects p)"
  "activeProjectId (snd (createDefaultIfEmpty now d p)) =
     (if projects p = [] then defaultProjectId d else activeProjectId p)"
  "globalTokens (snd (createDefaultIfEmpty now d p)) = globalTokens p"
  "projectsEnabled (snd (createDefaultIfEmpty now d p)) = projectsEnabled p"
  by (simp_all add: createDefaultIfEmpty_def Let_def)

lemma migrateInbox_fields [simp]:
  "projects (snd (migrateInbox d p)) = map (renameLegacy d) (projects p)"
  "activeProjectId (snd (migrateInbox d p)) = activeProjectId p"
  "globalTokens (snd (migrateInbox d p)) = globalTokens p"
  "projectsEnabled (snd (migrateInbox d p)) = projectsEnabled p"
  by (simp_all add: migrateInbox_def renameLegacy_def [abs_def])

lemma ensureDefault_projects:
  "projects (snd (ensureDefaultProject now d peer)) =
     (if projects peer = []
      then [\<lparr>id' = defaultProjectId d, name = d, archived = None, createdAt = now,
              lastUsedAt = Some now, note' = None, tokens = Some []\<rparr>]
      else map (initTokens \<circ> renameLegacy d) (projects peer))"
  by (simp add: ensureDefault_snd initTokens_def)

lemma ensureDefault_flags:
  "globalTokens (snd (ensureDefaultProject now d peer)) \<noteq> None"
  "projectsEnabled (snd (ensureDefaultProject now d peer)) \<noteq> None"
  by (auto simp: ensureDefault_snd split: option.splits)

lemma healed_project: 
  "isLegacyInbox ((initTokens \<circ> renameLegacy d) p) \<Longrightarrow> name ((initTokens \<circ> renameLegacy d) p) = d"
  "\<exists>y. tokens ((initTokens \<circ> renameLegacy d) p) = Some y"
  by (auto simp: initTokens_def renameLegacy_def split: if_splits)

lemma ensureDefault_healed: "healed d (snd (ensureDefaultProject now d peer))"
  unfolding healed_def
  apply (intro conjI)
      apply (rule ensureDefault_projects_nonempty)
     apply (simp add: ensureDefault_projects list_ex_iff healed_project del: comp_apply)
    apply (simp add: ensureDefault_projects list_ex_iff healed_project del: comp_apply)
   apply (rule ensureDefault_flags)
  apply (rule ensureDefault_flags)
  done

lemma map_id_conv: "\<not> list_ex P xs \<Longrightarrow> map (\<lambda>p. if P p then f p else p) xs = xs"
  by (induction xs) auto

lemma healed_changed:
  assumes "healed d h"
  shows "fst (ensureDefaultProject now d h) = (activeProjectId h = [])"
proof -
  from assms have ne: "projects h \<noteq> []"
    and m: "\<not> list_ex (\<lambda>p. isLegacyInbox p \<and> name p \<noteq> d) (projects h)"
    and tk: "\<not> list_ex (\<lambda>p. tokens p = None) (projects h)"
    and g: "globalTokens h \<noteq> None" and e: "projectsEnabled h \<noteq> None"
    by (simp_all add: healed_def)
  have 1: "migrateInbox d h = (False, h)"
    using m by (simp add: migrateInbox_def map_id_conv)
  have 2: "createDefaultIfEmpty now d h = (False, h)"
    using ne by (simp add: createDefaultIfEmpty_def)
  have 3: "ensureTokens h = (False, h)"
    using tk by (simp add: ensureTokens_def map_id_conv)
  have 4: "ensureGlobalTokens h = (False, h)"
    using g by (simp add: ensureGlobalTokens_def)
  have 6: "\<And>x. projectsEnabled x = projectsEnabled h \<Longrightarrow> ensureEnabledFlag x = (False, x)"
    using e by (simp add: ensureEnabledFlag_def)
  obtain f where f: "firstCandidate (projects h) = Some f"
    using ne firstCandidate_None [of "projects h"] by (cases "firstCandidate (projects h)") auto
  show ?thesis
    by (simp add: ensureDefaultProject_def 1 2 3 4 ensureActive_def f 6)
qed

lemma ensureDefault_second_changed:
  "fst (ensureDefaultProject now2 d (snd (ensureDefaultProject now1 d peer))) =
     (activeProjectId (snd (ensureDefaultProject now1 d peer)) = [])"
proof -
  let ?h = "snd (ensureDefaultProject now1 d peer)"
  have "healed d ?h" by (rule ensureDefault_healed)
  then show ?thesis by (rule healed_changed)
qed

lemma ensureDefault_ids:
  "projects peer \<noteq> [] \<Longrightarrow>
   map id' (projects (snd (ensureDefaultProject now d peer))) = map id' (projects peer)"
  by (simp add: ensureDefault_projects initTokens_def renameLegacy_def)

lemma ensureDefault_active_nonempty:
  assumes "list_all (\<lambda>p. id' p \<noteq> []) (projects peer)"
  shows "activeProjectId (snd (ensureDefaultProject now d peer)) \<noteq> []"
proof (cases "projects peer = [] \<or> activeProjectId peer = []")
  case True
  let ?h = "snd (ensureDefaultProject now d peer)"
  from ensureDefault_active_chosen [OF True, of now d]
  obtain q where q: "q \<in> set (projects ?h)" "id' q = activeProjectId ?h" by blast
  show ?thesis
  proof (cases "projects peer = []")
    case True
    then show ?thesis by (simp add: ensureDefault_defs Let_def defaultProjectId_nonempty)
  next
    case False
    from q(1) have "id' q \<in> set (map id' (projects ?h))" by simp
    then have "id' q \<in> set (map id' (projects peer))"
      by (simp only: ensureDefault_ids [OF False])
    with assms have "id' q \<noteq> []" by (auto simp: list_all_iff)
    with q(2) show ?thesis by simp
  qed
next
  case False
  then show ?thesis by (simp add: ensureDefault_active_kept)
qed

text \<open>
  Claim C3, as the code has it. After \<open>ensureDefaultProject\<close> the project collection is never
  empty. When the collection was empty or \<open>activeProjectId\<close> was empty before the call, the
  active id afterwards is the id of a project of the collection, and that project is not
  archived unless every project is archived. A non-empty \<open>activeProjectId\<close> of a non-empty
  collection is left as it is, whether or not it names a project.
\<close>

theorem ensureDefault_active_resolves:
  "let h = snd (ensureDefaultProject now d peer) in
     projects h \<noteq> [] \<and>
     (projects peer = [] \<or> activeProjectId peer = [] \<longrightarrow>
        list_ex (\<lambda>q. id' q = activeProjectId h \<and>
                      (notArchived q \<or> \<not> list_ex notArchived (projects h))) (projects h)) \<and>
     (projects peer \<noteq> [] \<and> activeProjectId peer \<noteq> [] \<longrightarrow>
        activeProjectId h = activeProjectId peer)"
  unfolding Let_def list_ex_iff
  using ensureDefault_projects_nonempty [of now d peer] ensureDefault_active_chosen [of peer now d]
    ensureDefault_active_kept [of peer now d]
  by blast

text \<open>Two instances: an empty active id is set to the first non-archived project, a
  non-empty one is kept.\<close>

theorem ensureDefault_active_resolves_witness:
  "activeProjectId (exPeer\<lparr>activeProjectId := []\<rparr>) = [] \<and>
   activeProjectId (snd (ensureDefaultProject ''t2'' ''General'' (exPeer\<lparr>activeProjectId := []\<rparr>)))
     = ''proj-general'' \<and>
   projects (snd (ensureDefaultProject ''t2'' ''General'' (exPeer\<lparr>activeProjectId := []\<rparr>)))
     = [exGeneral, exAlpha] \<and>
   projects (exPeer\<lparr>activeProjectId := ''proj-alpha''\<rparr>) \<noteq> [] \<and>
   activeProjectId (snd (ensureDefaultProject ''t2'' ''General''
     (exPeer\<lparr>activeProjectId := ''proj-alpha''\<rparr>))) = ''proj-alpha''"
  using ensureDefault_active_resolves [of "''t2''" "''General''" "exPeer\<lparr>activeProjectId := []\<rparr>"]
    ensureDefault_active_resolves [of "''t2''" "''General''" "exPeer\<lparr>activeProjectId := ''proj-alpha''\<rparr>"]
  by code_simp

text \<open>
  The claim as stated fails: an active id that names no project of a non-empty collection
  survives the call.
\<close>

theorem ensureDefault_dangling_active_counterexample:
  "let h = snd (ensureDefaultProject ''t2'' ''General'' (exPeer\<lparr>activeProjectId := ''proj-gone''\<rparr>))
   in \<not> (projects h \<noteq> [] \<and> list_ex (\<lambda>q. id' q = activeProjectId h \<and> notArchived q) (projects h))"
  by code_simp

text \<open>
  Claim C9, as the code has it. A second call of \<open>ensureDefaultProject\<close> right after a first
  one reports a change exactly when the active id is still empty after the first call (the
  project chosen for it has an empty id). In particular the second call reports no change
  whenever no project of the peer has an empty id.
\<close>

theorem ensureDefault_second_call:
  "fst (ensureDefaultProject now2 d (snd (ensureDefaultProject now1 d peer))) =
     (activeProjectId (snd (ensureDefaultProject now1 d peer)) = []) \<and>
   (list_all (\<lambda>p. id' p \<noteq> []) (projects peer) \<longrightarrow>
      \<not> fst (ensureDefaultProject now2 d (snd (ensureDefaultProject now1 d peer))))"
  using ensureDefault_second_changed [of now2 d now1 peer] ensureDefault_active_nonempty [of peer now1 d]
  by blast

text \<open>An instance: the first call changes the peer, the second does not.\<close>

theorem ensureDefault_second_call_witness:
  "list_all (\<lambda>p. id' p \<noteq> []) (projects (exPeer\<lparr>projectsEnabled := None\<rparr>)) \<and>
   fst (ensureDefaultProject ''t1'' ''General'' (exPeer\<lparr>projectsEnabled := None\<rparr>)) \<and>
   \<not> fst (ensureDefaultProject ''t2'' ''General''
           (snd (ensureDefaultProject ''t1'' ''General'' (exPeer\<lparr>projectsEnabled := None\<rparr>))))"
  using ensureDefault_second_call [of "''t2''" "''General''" "''t1''" "exPeer\<lparr>projectsEnabled := None\<rparr>"]
  by code_simp

text \<open>
  The claim as stated fails on a peer whose only project has the empty id and whose active
  id is empty: the second call sets the active id again and reports a change.
\<close>

theorem ensureDefault_empty_id_counterexample:
  "fst (ensureDefaultProject ''t2'' ''General''
         (snd (ensureDefaultProject ''t1'' ''General''
            (exPeer\<lparr>activeProjectId := [], projects := [exGeneral\<lparr>id' := []\<rparr>]\<rparr>))))"
  by code_simp

section \<open>Peer identity\<close>

lemma of_char_lowerChar:
  "(of_char (lowerChar c) :: nat) =
     (if 65 \<le> (of_char c :: nat) \<and> (of_char c :: nat) \<le> 90 then of_char c + 32 else of_char c)"
  by (simp add: lowerChar_def Let_def)

lemma lowerChar_colon [simp]: "lowerChar c = CHR '':'' \<longleftrightarrow> c = CHR '':''"
proof -
  have "(lowerChar c = CHR '':'') = ((of_char (lowerChar c) :: nat) = of_char (CHR '':''))"
    by (simp only: of_char_eq_iff)
  also have "\<dots> = ((of_char c :: nat) = of_char (CHR '':''))"
    by (simp add: of_char_lowerChar)
  also have "\<dots> = (c = CHR '':'')"
    by (simp only: of_char_eq_iff)
  finally show ?thesis .
qed

lemma lowerChar_colon' [simp]: "CHR '':'' = lowerChar c \<longleftrightarrow> c = CHR '':''"
  using lowerChar_colon [of c] by (simp only: eq_commute [of "CHR '':''"])

lemma lowerChar_idem [simp]: "lowerChar (lowerChar c) = lowerChar c"
proof -
  have "(of_char (lowerChar (lowerChar c)) :: nat) = of_char (lowerChar c)"
    by (simp add: of_char_lowerChar)
  then show ?thesis by (simp only: of_char_eq_iff)
qed

lemma toLowerCase_append [simp]: "toLowerCase (a @ b) = toLowerCase a @ toLowerCase b"
  by (simp add: toLowerCase_def)

lemma toLowerCase_idem [simp]: "toLowerCase (toLowerCase s) = toLowerCase s"
  by (simp add: toLowerCase_def)

lemma toLowerCase_simps [simp]:
  "toLowerCase [] = []" "toLowerCase (c # cs) = lowerChar c # toLowerCase cs"
  by (simp_all add: toLowerCase_def)

lemma toLowerCase_colon_free: "CHR '':'' \<notin> set s \<Longrightarrow> CHR '':'' \<notin> set (toLowerCase s)"
  by (induction s) auto

lemma toLowerCase_Nil_iff [simp]: "toLowerCase s = [] \<longleftrightarrow> s = []"
  by (simp add: toLowerCase_def)

lemma startsWith_append [simp]: "startsWith (p @ suf) p"
  by (simp add: startsWith_def)

lemma includes_str_append: "includes_str (pre @ p @ suf) p"
proof (induction pre)
  case Nil
  show ?case by (cases "p @ suf") (use startsWith_append [of p suf] in auto)
next
  case (Cons c pre)
  then show ?case by simp
qed

lemma endsWith_append [simp]: "endsWith (a @ p) p"
  by (simp add: endsWith_def)

lemma split_last_colon:
  assumes "CHR '':'' \<notin> set s"
  shows "rev (takeWhile (\<lambda>c. c \<noteq> CHR '':'') (rev (a @ CHR '':'' # s))) = s"
    and "rev (dropWhile (\<lambda>c. c \<noteq> CHR '':'') (rev (a @ CHR '':'' # s))) = a @ [CHR '':'']"
proof -
  have r: "rev (a @ CHR '':'' # s) = rev s @ CHR '':'' # rev a" by simp
  have t: "takeWhile (\<lambda>c. c \<noteq> CHR '':'') (rev s @ CHR '':'' # rev a) =
      rev s @ takeWhile (\<lambda>c. c \<noteq> CHR '':'') (CHR '':'' # rev a)"
    by (rule takeWhile_append2) (use assms in auto)
  have d: "dropWhile (\<lambda>c. c \<noteq> CHR '':'') (rev s @ CHR '':'' # rev a) =
      dropWhile (\<lambda>c. c \<noteq> CHR '':'') (CHR '':'' # rev a)"
    by (rule dropWhile_append2) (use assms in auto)
  show "rev (takeWhile (\<lambda>c. c \<noteq> CHR '':'') (rev (a @ CHR '':'' # s))) = s"
    unfolding r t by simp
  show "rev (dropWhile (\<lambda>c. c \<noteq> CHR '':'') (rev (a @ CHR '':'' # s))) = a @ [CHR '':'']"
    unfolding r d by simp
qed

lemma extract_dm_peer:
  assumes "s \<noteq> []" and "CHR '':'' \<notin> set s"
  shows "extractTelegramDmPeerIdFromSessionKey (pre @ '':telegram:dm:'' @ s) = Some (toLowerCase s)"
proof -
  let ?a = "toLowerCase pre @ '':telegram:dm''"
  have low: "toLowerCase (pre @ '':telegram:dm:'' @ s) = ?a @ CHR '':'' # toLowerCase s"
    by (simp add: lowerChar_def)
  have cf: "CHR '':'' \<notin> set (toLowerCase s)" using assms(2) by (rule toLowerCase_colon_free)
  have e: "endsWith (?a @ [CHR '':'']) '':telegram:dm:''"
    using endsWith_append [of "toLowerCase pre" "'':telegram:dm:''"] by simp
  show ?thesis
    unfolding extractTelegramDmPeerIdFromSessionKey_def Let_def low
      split_last_colon [OF cf]
    using assms(1) e by simp
qed

text \<open>
  The values of the two rules. For a non-empty sender id \<open>s\<close> without a colon, the hook
  rule applied to a session key ending in \<open>:telegram:dm:s\<close> yields \<open>telegram:\<close> followed by
  the lower-cased \<open>s\<close>, because the id is taken from the lower-cased copy of the session
  key; the command rule applied to channel \<open>telegram\<close> and sender \<open>s\<close> yields \<open>telegram:\<close>
  followed by \<open>s\<close> itself. The two rules give the same key only for an \<open>s\<close> without
  upper-case letters.
\<close>

lemma peer_key_rules_values:
  assumes "s \<noteq> []" and "CHR '':'' \<notin> set s"
  shows "buildPeerKeyFromBeforeAgentStart
           \<lparr>sessionKey = Some (pre @ '':telegram:dm:'' @ s), channelId = ch, conversationId = cv\<rparr>
           = ''telegram:'' @ toLowerCase s
         \<and> buildPeerKeyFromCommandCtx
             \<lparr>channel = Some ''telegram'', senderId = Some s, args = a, messageId = m\<rparr>
           = ''telegram:'' @ s
         \<and> (buildPeerKeyFromBeforeAgentStart
               \<lparr>sessionKey = Some (pre @ '':telegram:dm:'' @ s), channelId = ch, conversationId = cv\<rparr>
             = buildPeerKeyFromCommandCtx
                 \<lparr>channel = Some ''telegram'', senderId = Some s, args = a, messageId = m\<rparr>)
           = (toLowerCase s = s)"
proof -
  define sk where "sk = toLowerCase pre @ '':telegram:dm:'' @ toLowerCase s"
  have low: "toLowerCase (pre @ '':telegram:dm:'' @ s) = sk"
    by (simp add: sk_def lowerChar_def)
  have "includes_str (toLowerCase pre @ '':telegram:'' @ (''dm:'' @ toLowerCase s)) '':telegram:''"
    by (rule includes_str_append)
  then have inc: "includes_str sk '':telegram:''" by (simp add: sk_def)
  have "extractTelegramDmPeerIdFromSessionKey (toLowerCase pre @ '':telegram:dm:'' @ toLowerCase s)
          = Some (toLowerCase (toLowerCase s))"
    by (rule extract_dm_peer) (use assms toLowerCase_colon_free in auto)
  then have ex: "extractTelegramDmPeerIdFromSessionKey sk = Some (toLowerCase s)"
    by (simp add: sk_def)
  have hook: "buildPeerKeyFromBeforeAgentStart
           \<lparr>sessionKey = Some (pre @ '':telegram:dm:'' @ s), channelId = ch, conversationId = cv\<rparr>
           = ''telegram:'' @ toLowerCase s"
    by (simp only: buildPeerKeyFromBeforeAgentStart_def Let_def HookCtx.simps option.case low inc ex
          simp_thms if_True)
  have cmd: "buildPeerKeyFromCommandCtx
             \<lparr>channel = Some ''telegram'', senderId = Some s, args = a, messageId = m\<rparr>
           = ''telegram:'' @ s"
    by (simp add: buildPeerKeyFromCommandCtx_def lowerChar_def)
  from hook cmd show ?thesis by simp
qed

text \<open>
  Claim C8 asks that the two rules give the same key for every sender id, so that the
  command path and the hook path see the same peer state. The code misses this for a sender
  id with an upper-case letter. \<open>buildPeerKeyFromBeforeAgentStart\<close> lower-cases the session
  key to match the marker \<open>:telegram:dm:\<close> and takes the peer id from that lower-cased copy,
  whereas \<open>buildPeerKeyFromCommandCtx\<close> and the room-key handler keep the id as it is, and
  the fallback of the hook rule itself uses the session key as given. For the sender id
  \<open>Alice\<close> the hook rule gives \<open>telegram:alice\<close> and the command rule \<open>telegram:Alice\<close>:
  after the command \<open>on\<close> of this sender on an empty store, the peer state is stored under
  the command key with projects enabled, and the store has nothing under the hook key.
\<close>

theorem peer_key_rules_diverge:
  "buildPeerKeyFromBeforeAgentStart
     \<lparr>sessionKey = Some ''agent:main:telegram:dm:Alice'', channelId = Some ''telegram'',
      conversationId = None\<rparr> = ''telegram:alice'' \<and>
   buildPeerKeyFromCommandCtx
     \<lparr>channel = Some ''telegram'', senderId = Some ''Alice'', args = Some ''on'',
      messageId = Some 3\<rparr> = ''telegram:Alice'' \<and>
   map_option projectsEnabled
     (snd (handleProjectsCommand exCfg exEnv Map.empty
            \<lparr>channel = Some ''telegram'', senderId = Some ''Alice'', args = Some ''on'',
             messageId = Some 3\<rparr>) ''telegram:Alice'') = Some (Some True) \<and>
   snd (handleProjectsCommand exCfg exEnv Map.empty
          \<lparr>channel = Some ''telegram'', senderId = Some ''Alice'', args = Some ''on'',
           messageId = Some 3\<rparr>)
     (buildPeerKeyFromBeforeAgentStart
        \<lparr>sessionKey = Some ''agent:main:telegram:dm:Alice'', channelId = Some ''telegram'',
         conversationId = None\<rparr>) = None"
  by code_simp

section \<open>The room key\<close>

lemma replaceRuns_chars:
  "(\<And>c. ok c \<Longrightarrow> P c) \<Longrightarrow> P (CHR ''-'') \<Longrightarrow> list_all P (replaceRuns ok s)"
  by (induction ok s rule: replaceRuns.induct) auto

lemma stripHyphens_subset: "set (stripHyphens s) \<subseteq> set s"
  by (auto simp: stripHyphens_def dest!: set_dropWhileD)

lemma sanitize_chars: "list_all isRoomKeyChar (sanitizeRoomKeySuffixToken x)"
proof -
  have "list_all isRoomKeyChar (replaceRuns isRoomKeyChar (toLowerCase (trim x)))"
    by (rule replaceRuns_chars) (simp_all add: isRoomKeyChar_def)
  then show ?thesis
    unfolding sanitizeRoomKeySuffixToken_def list_all_iff
    using stripHyphens_subset set_take_subset by fast
qed

lemma sanitize_length: "length (sanitizeRoomKeySuffixToken x) \<le> 80"
  by (simp add: sanitizeRoomKeySuffixToken_def)

text \<open>
  Claim C7, as the code has it. Let hard isolation be on, the event be a Telegram direct
  message with a non-empty peer id whose peer is stored with projects enabled, and let the
  event carry a message id, the peer an effective-from id and the event a room key that is
  not empty once trimmed. Then the id routed to is the previous project id (the active id
  when the previous id is absent) if the message id is strictly below the effective-from
  id, and the active id otherwise; the result is the trimmed base key, \<open>:proj:\<close> and the
  sanitized id, and no key when the sanitized id is empty. When hard isolation is off, the
  event is not such a direct message, the peer id or the trimmed base key is empty, or the
  peer is missing or has projects disabled, no key is returned. A sanitized token has at
  most 80 characters, all of them in \<open>[a-z0-9_-]\<close>. The peer is read after
  \<open>ensureDefaultProject\<close>.
\<close>

theorem resolveRoomKey_routing:
  assumes "pid = trim (case ev_peerId event of Some x \<Rightarrow> x | None \<Rightarrow> [])"
      and "base = trim (case ev_roomKey event of Some x \<Rightarrow> x | None \<Rightarrow> [])"
      and "stored = map_option (\<lambda>p. snd (ensureDefaultProject (nowIso env) (defaultProjectName cfg) p))
                      (store (''telegram:'' @ pid))"
  shows "(hardIsolationEnabled cfg \<and> ev_channel event = Some ''telegram'' \<and>
          ev_peerKind event = Some ''dm'' \<and> pid \<noteq> [] \<and> stored = Some h \<and>
          projectsEnabled h = Some True \<and> ev_messageId event = Some msgId \<and>
          effectiveFromMessageId h = Some eff \<and> base \<noteq> [] \<longrightarrow>
            fst (resolveRoomKey cfg env store event) =
              (let chosen = (if msgId < eff
                             then (case previousProjectId h of Some prev \<Rightarrow> prev
                                   | None \<Rightarrow> activeProjectId h)
                             else activeProjectId h);
                   tok = sanitizeRoomKeySuffixToken chosen
               in if tok = [] then None else Some (base @ '':proj:'' @ tok)))
       \<and> (\<not> hardIsolationEnabled cfg \<or> ev_channel event \<noteq> Some ''telegram'' \<or>
          ev_peerKind event \<noteq> Some ''dm'' \<or> pid = [] \<or> base = [] \<or>
          (\<forall>p. stored = Some p \<longrightarrow> projectsEnabled p \<noteq> Some True) \<longrightarrow>
            fst (resolveRoomKey cfg env store event) = None)
       \<and> list_all isRoomKeyChar (sanitizeRoomKeySuffixToken x)
       \<and> length (sanitizeRoomKeySuffixToken x) \<le> 80"
proof (intro conjI impI)
  assume a: "hardIsolationEnabled cfg \<and> ev_channel event = Some ''telegram'' \<and>
          ev_peerKind event = Some ''dm'' \<and> pid \<noteq> [] \<and> stored = Some h \<and>
          projectsEnabled h = Some True \<and> ev_messageId event = Some msgId \<and>
          effectiveFromMessageId h = Some eff \<and> base \<noteq> []"
  then obtain peer0 where p0: "store (''telegram:'' @ pid) = Some peer0"
    and h: "h = snd (ensureDefaultProject (nowIso env) (defaultProjectName cfg) peer0)"
    using assms(3) by (cases "store (''telegram:'' @ pid)") auto
  show "fst (resolveRoomKey cfg env store event) =
              (let chosen = (if msgId < eff
                             then (case previousProjectId h of Some prev \<Rightarrow> prev
                                   | None \<Rightarrow> activeProjectId h)
                             else activeProjectId h);
                   tok = sanitizeRoomKeySuffixToken chosen
               in if tok = [] then None else Some (base @ '':proj:'' @ tok))"
    using a p0 assms(1,2) [symmetric] unfolding h
    by (simp add: resolveRoomKey_def Let_def)
next
  assume b: "\<not> hardIsolationEnabled cfg \<or> ev_channel event \<noteq> Some ''telegram'' \<or>
          ev_peerKind event \<noteq> Some ''dm'' \<or> pid = [] \<or> base = [] \<or>
          (\<forall>p. stored = Some p \<longrightarrow> projectsEnabled p \<noteq> Some True)"
  show "fst (resolveRoomKey cfg env store event) = None"
    using b assms(3) assms(1,2) [symmetric]
    by (auto simp: resolveRoomKey_def Let_def split: option.splits)
next
  show "list_all isRoomKeyChar (sanitizeRoomKeySuffixToken x)" by (rule sanitize_chars)
next
  show "length (sanitizeRoomKeySuffixToken x) \<le> 80" by (rule sanitize_length)
qed

text \<open>Instances: message 7 precedes the switch recorded at message 10 and is routed to
  the previous project, message 10 to the active one; with projects disabled there is no
  key.\<close>

theorem resolveRoomKey_routing_witness:
  "fst (resolveRoomKey exCfg exEnv exStoreOn (exEvent 7)) =
     Some ''agent:main:telegram:dm:42:proj:proj-general'' \<and>
   fst (resolveRoomKey exCfg exEnv exStoreOn (exEvent 10)) =
     Some ''agent:main:telegram:dm:42:proj:proj-alpha'' \<and>
   projectsEnabled exPeer = Some False \<and>
   fst (resolveRoomKey exCfg exEnv exStore (exEvent 7)) = None"
proof -
  have pre: "\<And>n. hardIsolationEnabled exCfg \<and> ev_channel (exEvent n) = Some ''telegram'' \<and>
      ev_peerKind (exEvent n) = Some ''dm'' \<and>
      trim (case ev_peerId (exEvent n) of Some x \<Rightarrow> x | None \<Rightarrow> []) \<noteq> [] \<and>
      map_option (\<lambda>p. snd (ensureDefaultProject (nowIso exEnv) (defaultProjectName exCfg) p))
        (exStoreOn (''telegram:'' @ trim (case ev_peerId (exEvent n) of Some x \<Rightarrow> x | None \<Rightarrow> [])))
        = Some exPeerOn \<and>
      projectsEnabled exPeerOn = Some True \<and> ev_messageId (exEvent n) = Some n \<and>
      effectiveFromMessageId exPeerOn = Some 10 \<and>
      trim (case ev_roomKey (exEvent n) of Some x \<Rightarrow> x | None \<Rightarrow> []) \<noteq> []"
    by code_simp
  have neg: "\<not> hardIsolationEnabled exCfg \<or> ev_channel (exEvent 7) \<noteq> Some ''telegram'' \<or>
      ev_peerKind (exEvent 7) \<noteq> Some ''dm'' \<or>
      trim (case ev_peerId (exEvent 7) of Some x \<Rightarrow> x | None \<Rightarrow> []) = [] \<or>
      trim (case ev_roomKey (exEvent 7) of Some x \<Rightarrow> x | None \<Rightarrow> []) = [] \<or>
      (\<forall>p. map_option (\<lambda>p. snd (ensureDefaultProject (nowIso exEnv) (defaultProjectName exCfg) p))
        (exStore (''telegram:'' @ trim (case ev_peerId (exEvent 7) of Some x \<Rightarrow> x | None \<Rightarrow> [])))
        = Some p \<longrightarrow> projectsEnabled p \<noteq> Some True)"
  proof -
    have eq: "map_option (\<lambda>p. snd (ensureDefaultProject (nowIso exEnv) (defaultProjectName exCfg) p))
        (exStore (''telegram:'' @ trim (case ev_peerId (exEvent 7) of Some x \<Rightarrow> x | None \<Rightarrow> [])))
        = Some exPeer"
      by code_simp
    have ne: "projectsEnabled exPeer \<noteq> Some True" by code_simp
    have "\<forall>p. map_option (\<lambda>p. snd (ensureDefaultProject (nowIso exEnv) (defaultProjectName exCfg) p))
        (exStore (''telegram:'' @ trim (case ev_peerId (exEvent 7) of Some x \<Rightarrow> x | None \<Rightarrow> [])))
        = Some p \<longrightarrow> projectsEnabled p \<noteq> Some True"
      unfolding eq using ne by blast
    then show ?thesis by blast
  qed
  have a: "fst (resolveRoomKey exCfg exEnv exStoreOn (exEvent 7)) =
     Some ''agent:main:telegram:dm:42:proj:proj-general''"
    using resolveRoomKey_routing [where event = "exEvent 7" and env = exEnv and cfg = exCfg
      and store = exStoreOn and h = exPeerOn and msgId = 7 and eff = 10 and x = "''x''",
      OF refl refl refl, THEN conjunct1, THEN mp, OF pre]
    by code_simp
  have b: "fst (resolveRoomKey exCfg exEnv exStoreOn (exEvent 10)) =
     Some ''agent:main:telegram:dm:42:proj:proj-alpha''"
    using resolveRoomKey_routing [where event = "exEvent 10" and env = exEnv and cfg = exCfg
      and store = exStoreOn and h = exPeerOn and msgId = 10 and eff = 10 and x = "''x''",
      OF refl refl refl, THEN conjunct1, THEN mp, OF pre]
    by code_simp
  have c: "fst (resolveRoomKey exCfg exEnv exStore (exEvent 7)) = None"
    using resolveRoomKey_routing [where event = "exEvent 7" and env = exEnv and cfg = exCfg
      and store = exStore and h = exPeerOn and msgId = 7 and eff = 10 and x = "''x''",
      OF refl refl refl, THEN conjunct2, THEN conjunct1, THEN mp, OF neg] .
  have d: "projectsEnabled exPeer = Some False" by code_simp
  from a b c d show ?thesis by simp
qed

text \<open>
  The claim as stated fails when the id routed to sanitizes to the empty string, as the
  empty previous id a wipe-all leaves does: no key is returned, neither for the previous id
  nor for the active one.
\<close>

theorem resolveRoomKey_empty_token_counterexample:
  "hardIsolationEnabled exCfg \<and> projectsEnabled exPeerOn = Some True \<and>
   ev_messageId (exEvent 7) = Some 7 \<and> effectiveFromMessageId exPeerOn = Some 10 \<and>
   ev_roomKey (exEvent 7) = Some ''agent:main:telegram:dm:42'' \<and>
   fst (resolveRoomKey exCfg exEnv
          (Map.empty(''telegram:42'' \<mapsto> exPeerOn\<lparr>previousProjectId := Some []\<rparr>)) (exEvent 7)) = None"
  by code_simp

section \<open>More on ensureDefaultProject\<close>

lemma ensureEnabledFlag_more [simp]:
  "version (snd (ensureEnabledFlag p)) = version p"
  "previousProjectId (snd (ensureEnabledFlag p)) = previousProjectId p"
  "effectiveFromMessageId (snd (ensureEnabledFlag p)) = effectiveFromMessageId p"
  "lastProjectId (snd (ensureEnabledFlag p)) = lastProjectId p"
  "pendingReset (snd (ensureEnabledFlag p)) = pendingReset p"
  "pendingWipe (snd (ensureEnabledFlag p)) = pendingWipe p"
  by (simp_all add: ensureEnabledFlag_def)

lemma ensureActive_more [simp]:
  "version (snd (ensureActive p)) = version p"
  "previousProjectId (snd (ensureActive p)) = previousProjectId p"
  "effectiveFromMessageId (snd (ensureActive p)) = effectiveFromMessageId p"
  "lastProjectId (snd (ensureActive p)) = lastProjectId p"
  "pendingReset (snd (ensureActive p)) = pendingReset p"
  "pendingWipe (snd (ensureActive p)) = pendingWipe p"
  "activeProjectId (snd (ensureActive p)) =
     (if activeProjectId p = []
      then (case firstCandidate (projects p) of Some f \<Rightarrow> id' f | None \<Rightarrow> [])
      else activeProjectId p)"
  by (simp_all add: ensureActive_def split: option.splits)

lemma ensureGlobalTokens_more [simp]:
  "version (snd (ensureGlobalTokens p)) = version p"
  "previousProjectId (snd (ensureGlobalTokens p)) = previousProjectId p"
  "effectiveFromMessageId (snd (ensureGlobalTokens p)) = effectiveFromMessageId p"
  "lastProjectId (snd (ensureGlobalTokens p)) = lastProjectId p"
  "pendingReset (snd (ensureGlobalTokens p)) = pendingReset p"
  "pendingWipe (snd (ensureGlobalTokens p)) = pendingWipe p"
  by (simp_all add: ensureGlobalTokens_def)

lemma ensureTokens_more [simp]:
  "version (snd (ensureTokens p)) = version p"
  "previousProjectId (snd (ensureTokens p)) = previousProjectId p"
  "effectiveFromMessageId (snd (ensureTokens p)) = effectiveFromMessageId p"
  "lastProjectId (snd (ensureTokens p)) = lastProjectId p"
  "pendingReset (snd (ensureTokens p)) = pendingReset p"
  "pendingWipe (snd (ensureTokens p)) = pendingWipe p"
  by (simp_all add: ensureTokens_def)

lemma createDefault_more [simp]:
  "version (snd (createDefaultIfEmpty now d p)) = version p"
  "previousProjectId (snd (createDefaultIfEmpty now d p)) = previousProjectId p"
  "effectiveFromMessageId (snd (createDefaultIfEmpty now d p)) = effectiveFromMessageId p"
  "lastProjectId (snd (createDefaultIfEmpty now d p)) =
     (if projects p = [] then Some (defaultProjectId d) else lastProjectId p)"
  "pendingReset (snd (createDefaultIfEmpty now d p)) =
     (if projects p = [] then Some False else pendingReset p)"
  "pendingWipe (snd (createDefaultIfEmpty now d p)) = pendingWipe p"
  by (simp_all add: createDefaultIfEmpty_def Let_def)

lemma migrateInbox_more [simp]:
  "version (snd (migrateInbox d p)) = version p"
  "previousProjectId (snd (migrateInbox d p)) = previousProjectId p"
  "effectiveFromMessageId (snd (migrateInbox d p)) = effectiveFromMessageId p"
  "lastProjectId (snd (migrateInbox d p)) = lastProjectId p"
  "pendingReset (snd (migrateInbox d p)) = pendingReset p"
  "pendingWipe (snd (migrateInbox d p)) = pendingWipe p"
  by (simp_all add: migrateInbox_def)

lemma ensureDefault_fields:
  "version (snd (ensureDefaultProject now d p)) = version p"
  "previousProjectId (snd (ensureDefaultProject now d p)) = previousProjectId p"
  "effectiveFromMessageId (snd (ensureDefaultProject now d p)) = effectiveFromMessageId p"
  "pendingWipe (snd (ensureDefaultProject now d p)) = pendingWipe p"
  "lastProjectId (snd (ensureDefaultProject now d p)) =
     (if projects p = [] then Some (defaultProjectId d) else lastProjectId p)"
  "pendingReset (snd (ensureDefaultProject now d p)) =
     (if projects p = [] then Some False else pendingReset p)"
  "globalTokens (snd (ensureDefaultProject now d p)) =
     (case globalTokens p of None \<Rightarrow> Some [] | Some g \<Rightarrow> Some g)"
  "projectsEnabled (snd (ensureDefaultProject now d p)) =
     (case projectsEnabled p of None \<Rightarrow> Some False | Some b \<Rightarrow> Some b)"
  by (simp_all add: ensureDefault_snd)

lemma healed_fixpoint: 
  assumes "healed d h"
  shows "map (initTokens \<circ> renameLegacy d) (filter P (projects h)) = filter P (projects h)"
proof -
  have "\<And>p. p \<in> set (projects h) \<Longrightarrow> (initTokens \<circ> renameLegacy d) p = p"
    using assms by (auto simp: healed_def list_ex_iff initTokens_def renameLegacy_def)
  then show ?thesis by (intro map_idI) simp
qed

lemma healed_projects_kept:
  assumes "healed d h"
  shows "projects (snd (ensureDefaultProject now d h)) = projects h"
proof -
  have "projects h \<noteq> []" using assms by (simp add: healed_def)
  moreover have "map (initTokens \<circ> renameLegacy d) (projects h) = projects h"
    using healed_fixpoint [OF assms, of "\<lambda>_. True"] by simp
  ultimately show ?thesis by (simp add: ensureDefault_projects)
qed

lemma healed_pendingWipe [simp]: "healed d (h\<lparr>pendingWipe := w\<rparr>) = healed d h"
  by (simp add: healed_def)


lemma splitWs_new: "splitWs ''new'' = [''new'']"
  by code_simp

lemma new_sub:
  "trim (case args ctx of Some x \<Rightarrow> x | None \<Rightarrow> []) = ''new'' \<Longrightarrow>
   toLowerCase (part (partsOf ctx) 0) = ''new''"
  by (simp add: partsOf_def splitWs_new part_def lowerChar_def)

lemma dispatch_wipe:
  "toLowerCase (part (partsOf ctx) 0) = ''wipe'' \<Longrightarrow>
   handleProjectsCommand cfg env store ctx =
     handleWipe cfg env store (buildPeerKeyFromCommandCtx ctx) (partsOf ctx) (messageId ctx)"
  using new_sub [of ctx] by (auto simp: handleProjectsCommand_def Let_def)

lemma dispatch_reset:
  "toLowerCase (part (partsOf ctx) 0) = ''reset'' \<Longrightarrow>
   handleProjectsCommand cfg env store ctx =
     handleReset cfg env store (buildPeerKeyFromCommandCtx ctx) (partsOf ctx)"
  using new_sub [of ctx] by (auto simp: handleProjectsCommand_def Let_def)

lemma dispatch_switch:
  "toLowerCase (part (partsOf ctx) 0) = ''switch'' \<Longrightarrow>
   handleProjectsCommand cfg env store ctx =
     handleSwitch cfg env store ctx (buildPeerKeyFromCommandCtx ctx)
       (trim (case args ctx of Some x \<Rightarrow> x | None \<Rightarrow> []))"
  using new_sub [of ctx] by (auto simp: handleProjectsCommand_def Let_def)

lemma dispatch_new:
  "toLowerCase (part (partsOf ctx) 0) = ''new'' \<Longrightarrow>
   trim (case args ctx of Some x \<Rightarrow> x | None \<Rightarrow> []) \<noteq> ''new'' \<Longrightarrow>
   handleProjectsCommand cfg env store ctx =
     handleNew cfg env store ctx (buildPeerKeyFromCommandCtx ctx)
       (trim (case args ctx of Some x \<Rightarrow> x | None \<Rightarrow> []))"
  by (auto simp: handleProjectsCommand_def Let_def)

section \<open>Arming a wipe\<close>

text \<open>
  Claim C10, as the code has it. The subcommand and the token after it are compared in
  lower case. Whenever the first token is \<open>wipe\<close> and the token after it (the empty string
  when there is none) is, in lower case, none of \<open>cancel\<close>, \<open>confirm\<close> and \<open>project\<close>, the
  handler arms a new wipe-all operation with the nonce, time stamp and backup directory of
  this invocation, replaces whatever wipe was pending for the peer and stores the peer.
\<close>

theorem wipe_unknown_action_arms:
  assumes "toLowerCase (part (partsOf ctx) 0) = ''wipe''"
      and "toLowerCase (part (partsOf ctx) 1) \<notin> {''cancel'', ''confirm'', ''project''}"
  shows "handleProjectsCommand cfg env store ctx =
     (let k = buildPeerKeyFromCommandCtx ctx;
          peer = (case store k of Some p \<Rightarrow> p | None \<Rightarrow> wipeBlankPeer);
          pending = \<lparr>nonce = randomNonce (randomBytes4 env), createdAtMs = nowMs env,
                      kind = KindAll, projectId = None, stamp = backupStamp env,
                      backupDir = backupDirFor cfg (backupStamp env)\<rparr>
      in (Inr (ArmedAll pending), store(k \<mapsto> peer\<lparr>pendingWipe := Some pending\<rparr>)))"
  using assms(2)
  by (simp add: dispatch_wipe [OF assms(1)] handleWipe_def wipeArmAll_def Let_def)

text \<open>An instance: the misspelled \<open>wipe confrim\<close> arms a wipe-all over a pending
  per-project wipe.\<close>

theorem wipe_unknown_action_arms_witness:
  "fst (handleProjectsCommand exCfg exEnv exStoreArmed (exCtx ''wipe confrim 0a0b0c0d'')) =
     Inr (ArmedAll \<lparr>nonce = ''a1b2c3d4'', createdAtMs = 1000000, kind = KindAll, projectId = None,
            stamp = ''20260101-120000'',
            backupDir = ''/home/u/.openclaw/backup_projects_ux_20260101-120000''\<rparr>)"
proof -
  have 1: "toLowerCase (part (partsOf (exCtx ''wipe confrim 0a0b0c0d'')) 0) = ''wipe''"
    by code_simp
  have 2: "toLowerCase (part (partsOf (exCtx ''wipe confrim 0a0b0c0d'')) 1)
             \<notin> {''cancel'', ''confirm'', ''project''}"
    by code_simp
  show ?thesis
    unfolding wipe_unknown_action_arms [OF 1 2] by code_simp
qed

text \<open>
  The claim as stated fails for a token that differs from \<open>cancel\<close> only in case:
  \<open>wipe CANCEL\<close> cancels the pending wipe and arms nothing.
\<close>

theorem wipe_upper_case_cancel_counterexample:
  "part (partsOf (exCtx ''wipe CANCEL'')) 1 \<notin> {''cancel'', ''confirm'', ''project''} \<and>
   fst (handleProjectsCommand exCfg exEnv exStoreArmed (exCtx ''wipe CANCEL'')) = Inr Cancelled \<and>
   map_option pendingWipe (snd (handleProjectsCommand exCfg exEnv exStoreArmed (exCtx ''wipe CANCEL''))
      ''telegram:42'') = Some None"
  by code_simp

section \<open>The replies of the subcommands\<close>

lemma quiet_simps [simp]:
  "quiet (Inr UsageNew)" "quiet (Inr Help)" "quiet (Inr More)" "quiet (Inr MemoryHelp)"
  "quiet (Inr UsageSwitch)"
  by (simp_all add: quiet_def)

lemma quiet_handleStatus: "quiet (fst (handleStatus cfg env store k))"
  by (simp add: handleStatus_def quiet_def Let_def split: option.splits)

lemma quiet_handleDebug: "quiet (fst (handleDebug cfg env store k))"
  by (simp add: handleDebug_def quiet_def Let_def split: option.splits)

lemma quiet_handleList: "quiet (fst (handleList cfg env store k))"
  by (simp add: handleList_def quiet_def Let_def split: option.splits)

lemma quiet_handleOn: "quiet (fst (handleOn cfg env store ctx k))"
  by (simp add: handleOn_def quiet_def withPeerState_def Let_def split: prod.splits)

lemma quiet_handleOff: "quiet (fst (handleOff cfg env store ctx k))"
  by (simp add: handleOff_def quiet_def withPeerState_def Let_def split: prod.splits)

lemma newInPeer_quiet: "newInPeer cfg env ctx nm peer0 = (r, p) \<Longrightarrow> quiet (Inr r)"
  by (auto simp: newInPeer_def quiet_def Let_def split: option.splits if_splits)

lemma quiet_handleNew: "quiet (fst (handleNew cfg env store ctx k a))"
  by (auto simp: handleNew_def withPeerState_def Let_def split: prod.splits dest: newInPeer_quiet)

lemma switchInPeer_quiet: "switchInPeer cfg env ctx key peer0 = (r, p) \<Longrightarrow> quiet (Inr r)"
  by (auto simp: switchInPeer_def quiet_def Let_def split: option.splits if_splits)

lemma quiet_handleSwitch: "quiet (fst (handleSwitch cfg env store ctx k a))"
  by (auto simp: handleSwitch_def withPeerState_def Let_def split: prod.splits
        dest: switchInPeer_quiet)

lemma handle_cases:
  "quiet (fst (handleProjectsCommand cfg env store ctx)) \<or>
   (toLowerCase (part (partsOf ctx) 0) = ''reset'' \<and>
    handleProjectsCommand cfg env store ctx =
      handleReset cfg env store (buildPeerKeyFromCommandCtx ctx) (partsOf ctx)) \<or>
   (toLowerCase (part (partsOf ctx) 0) = ''wipe'' \<and>
    handleProjectsCommand cfg env store ctx =
      handleWipe cfg env store (buildPeerKeyFromCommandCtx ctx) (partsOf ctx) (messageId ctx))"
  using new_sub [of ctx]
  by (simp add: handleProjectsCommand_def Let_def quiet_handleStatus quiet_handleDebug
        quiet_handleList quiet_handleOn quiet_handleOff quiet_handleNew quiet_handleSwitch)

lemma handleReset_not_wiped:
  "handleReset cfg env store k parts = (Inr r, s') \<Longrightarrow> wipedKind r = None"
  by (auto simp: handleReset_def Let_def split: option.splits if_splits)

lemma wipeOne_error_shape:
  "backupAndWipeOneProject cfg env store k pending pid m = (Inl e, s') \<Longrightarrow>
   wipedKind e = None \<and> armedPending e = None \<and> \<not> guardRefusal (Inr e)"
  by (auto simp: backupAndWipeOneProject_def Let_def guardRefusal_def
        split: CopyResult.splits option.splits if_splits)

lemma handleWipe_WipedAll:
  assumes "handleWipe cfg env store k parts m = (Inr (WipedAll dir), s')"
  shows "\<exists>s. s' = wipeProjectsUxForPeer cfg env s k m"
  using assms
  by (auto simp: handleWipe_def wipeConfirmAll_def wipeConfirmOne_def wipeArmAll_def
        backupAndResetProjectsUx_def Let_def
        split: option.splits if_splits prod.splits sum.splits CopyResult.splits
        dest: wipeOne_error_shape)

lemma wipeProjectsUxForPeer_peer:
  "\<exists>p q. wipeProjectsUxForPeer cfg env s k m k = Some p \<and> projectsEnabled p = Some False \<and>
     projects p = [q] \<and> name q = defaultProjectName cfg \<and> tokens q = Some [] \<and>
     globalTokens p = Some [] \<and> pendingWipe p = None"
  by (simp add: wipeProjectsUxForPeer_def ensureDefault_projects ensureDefault_fields)

text \<open>
  Claim C6. Whenever the command replies that all projects state was wiped, the peer it
  leaves in the store has projects disabled, exactly one project, named as the configured
  default and with an empty token list, an empty global token list and no pending wipe.
\<close>

theorem wipe_all_result:
  assumes "handleProjectsCommand cfg env store ctx = (Inr (WipedAll dir), store')"
  shows "\<exists>p q. store' (buildPeerKeyFromCommandCtx ctx) = Some p \<and>
           projectsEnabled p = Some False \<and> projects p = [q] \<and>
           name q = defaultProjectName cfg \<and> tokens q = Some [] \<and>
           globalTokens p = Some [] \<and> pendingWipe p = None"
proof -
  let ?k = "buildPeerKeyFromCommandCtx ctx"
  have nq: "\<not> quiet (fst (handleProjectsCommand cfg env store ctx))"
    using assms by (simp add: quiet_def)
  have nr: "handleProjectsCommand cfg env store ctx \<noteq> handleReset cfg env store ?k (partsOf ctx)"
    using assms handleReset_not_wiped [of cfg env store ?k "partsOf ctx" "WipedAll dir" store']
    by auto
  from handle_cases [of cfg env store ctx] nq nr assms
  have "handleWipe cfg env store ?k (partsOf ctx) (messageId ctx) = (Inr (WipedAll dir), store')"
    by auto
  then obtain s where "store' = wipeProjectsUxForPeer cfg env s ?k (messageId ctx)"
    using handleWipe_WipedAll by blast
  then show ?thesis using wipeProjectsUxForPeer_peer by simp
qed

text \<open>An instance: arming and confirming a wipe-all on the example store.\<close>

theorem wipe_all_result_witness:
  "\<exists>p q. snd (handleProjectsCommand exCfg (exEnv\<lparr>nowMs := 1060000\<rparr>)
                 (snd (handleProjectsCommand exCfg exEnv exStore (exCtx ''wipe'')))
                 (exCtx ''wipe confirm a1b2c3d4'')) ''telegram:42'' = Some p \<and>
     projectsEnabled p = Some False \<and> projects p = [q] \<and> name q = ''General'' \<and>
     tokens q = Some [] \<and> globalTokens p = Some [] \<and> pendingWipe p = None"
proof -
  let ?out = "handleProjectsCommand exCfg (exEnv\<lparr>nowMs := 1060000\<rparr>)
                 (snd (handleProjectsCommand exCfg exEnv exStore (exCtx ''wipe'')))
                 (exCtx ''wipe confirm a1b2c3d4'')"
  have "fst ?out = Inr (WipedAll ''/home/u/.openclaw/backup_projects_ux_20260101-120000'')"
    by code_simp
  then have eq: "?out = (Inr (WipedAll ''/home/u/.openclaw/backup_projects_ux_20260101-120000''),
                        snd ?out)"
    by (simp add: prod_eq_iff)
  have k: "buildPeerKeyFromCommandCtx (exCtx ''wipe confirm a1b2c3d4'') = ''telegram:42''"
    by code_simp
  have d: "defaultProjectName exCfg = ''General''"
    by code_simp
  from wipe_all_result [OF eq] show ?thesis
    unfolding k d .
qed

section \<open>The destructive-operation guard\<close>


lemma healed_persist:
  "healed d (snd (ensureDefaultProject now d p)\<lparr>pendingWipe := w\<rparr>)"
  by (simp add: ensureDefault_healed)














section \<open>Wiping one project\<close>








section \<open>Refusals\<close>

lemma record_projects_id [simp]: "p\<lparr>projects := projects p\<rparr> = p" for p :: PeerState
  by simp

lemma unchanged_same:
  assumes "\<not> fst (ensureDefaultProject now d p)"
  shows "snd (ensureDefaultProject now d p) = p"
proof -
  from assms have 1: "migrateInbox d p = (False, p)"
    by (auto simp: ensureDefaultProject_def migrateInbox_def map_id_conv split: prod.splits)
  from assms 1 have 2: "createDefaultIfEmpty now d p = (False, p)"
    by (auto simp: ensureDefaultProject_def createDefaultIfEmpty_def Let_def split: prod.splits if_splits)
  from assms 1 2 have 3: "ensureTokens p = (False, p)"
    by (auto simp: ensureDefaultProject_def ensureTokens_def map_id_conv split: prod.splits)
  from assms 1 2 3 have 4: "ensureGlobalTokens p = (False, p)"
    by (auto simp: ensureDefaultProject_def ensureGlobalTokens_def split: prod.splits if_splits)
  from assms 1 2 3 4 have 5: "ensureActive p = (False, p)"
    by (auto simp: ensureDefaultProject_def ensureActive_def split: prod.splits if_splits option.splits)
  from assms 1 2 3 4 5 have 6: "ensureEnabledFlag p = (False, p)"
    by (auto simp: ensureDefaultProject_def ensureEnabledFlag_def split: prod.splits if_splits)
  show ?thesis by (simp add: ensureDefaultProject_def 1 2 3 4 5 6)
qed

lemma persistIfChanged_eq:
  "store k = Some peer0 \<Longrightarrow>
   persistIfChanged store k (ensureDefaultProject now d peer0) =
     store(k \<mapsto> snd (ensureDefaultProject now d peer0))"
  using unchanged_same [of now d peer0]
  by (auto simp: persistIfChanged_def fun_upd_idem)

lemma wipeOne_default:
  assumes "backupAndWipeOneProject cfg e s k pw (defaultProjectId (defaultProjectName cfg)) m = (r, s')"
  shows "s' = s \<and> (\<exists>err. r = Inl err \<and> refusal err)"
  using assms
  by (auto simp: backupAndWipeOneProject_def Let_def split: CopyResult.splits option.splits)

lemma confirmOne_default:
  assumes "part parts 4 = defaultProjectId (defaultProjectName cfg)"
      and "peer = (case store k of Some p \<Rightarrow> p | None \<Rightarrow> wipeBlankPeer)"
  shows "(\<exists>r. fst (wipeConfirmOne cfg env store k peer parts m) = Inr r \<and> refusal r) \<and>
         map_option projects (snd (wipeConfirmOne cfg env store k peer parts m) k) =
           map_option projects (store k)"
proof (cases "pendingWipe peer")
  case None
  then show ?thesis by (simp add: wipeConfirmOne_def Let_def)
next
  case (Some pw)
  then obtain p where p: "store k = Some p" "peer = p"
    using assms(2) by (cases "store k") (auto simp: wipeBlankPeer_def freshPeer_def)
  let ?cl = "clearPending store k peer"
  have cl: "map_option projects (?cl k) = map_option projects (store k)"
    using p by (simp add: clearPending_def)
  obtain r s' where w: "backupAndWipeOneProject cfg env ?cl k pw (part parts 4) m = (r, s')"
    by (cases "backupAndWipeOneProject cfg env ?cl k pw (part parts 4) m") auto
  from wipeOne_default [OF w [unfolded assms(1)]]
  obtain err where e: "s' = ?cl" "r = Inl err" "refusal err" by blast
  show ?thesis
    using Some cl w e by (auto simp: wipeConfirmOne_def Let_def)
qed

text \<open>
  Claim C4, as the code has it. Arming a per-project wipe of the default project id
  (\<open>reset remove <id>\<close>) is refused: with no stored peer the reply says so and the store is
  unchanged; otherwise the reply is the refusal for the default project, and the store holds
  the peer as \<open>ensureDefaultProject\<close> leaves it, with its pending wipe and the ids of a
  non-empty collection unchanged, and the whole collection unchanged when the peer needed no
  healing. Confirming a per-project wipe of the default project id
  (\<open>wipe project confirm <nonce> <id>\<close>) is always answered with a refusal and leaves the
  stored collection of the peer unchanged.
\<close>

theorem default_project_wipe_refused:
  assumes "d = defaultProjectName cfg" and "k = buildPeerKeyFromCommandCtx ctx"
      and "parts = partsOf ctx" and "out = handleProjectsCommand cfg env store ctx"
  shows "(toLowerCase (part parts 0) = ''reset'' \<and> toLowerCase (part parts 1) = ''remove'' \<and>
          part parts 2 = defaultProjectId d \<longrightarrow>
            (case store k of
               None \<Rightarrow> out = (Inr NoProjectsState, store)
             | Some peer0 \<Rightarrow>
                 out = (Inr RefusedDefault,
                        store(k \<mapsto> snd (ensureDefaultProject (nowIso env) d peer0))) \<and>
                 pendingWipe (snd (ensureDefaultProject (nowIso env) d peer0)) = pendingWipe peer0 \<and>
                 (projects peer0 \<noteq> [] \<longrightarrow>
                    map id' (projects (snd (ensureDefaultProject (nowIso env) d peer0)))
                      = map id' (projects peer0)) \<and>
                 (healed d peer0 \<longrightarrow>
                    projects (snd (ensureDefaultProject (nowIso env) d peer0)) = projects peer0)))
       \<and> (toLowerCase (part parts 0) = ''wipe'' \<and> toLowerCase (part parts 1) = ''project'' \<and>
          toLowerCase (part parts 2) = ''confirm'' \<and> part parts 4 = defaultProjectId d \<longrightarrow>
            (\<exists>r. fst out = Inr r \<and> refusal r) \<and>
            map_option projects (snd out k) = map_option projects (store k))"
proof (rule conjI; rule impI)
  assume a: "toLowerCase (part parts 0) = ''reset'' \<and> toLowerCase (part parts 1) = ''remove'' \<and>
          part parts 2 = defaultProjectId d"
  then have o: "out = handleReset cfg env store k parts"
    using dispatch_reset [of ctx cfg env store] assms by simp
  show "case store k of
               None \<Rightarrow> out = (Inr NoProjectsState, store)
             | Some peer0 \<Rightarrow>
                 out = (Inr RefusedDefault,
                        store(k \<mapsto> snd (ensureDefaultProject (nowIso env) d peer0))) \<and>
                 pendingWipe (snd (ensureDefaultProject (nowIso env) d peer0)) = pendingWipe peer0 \<and>
                 (projects peer0 \<noteq> [] \<longrightarrow>
                    map id' (projects (snd (ensureDefaultProject (nowIso env) d peer0)))
                      = map id' (projects peer0)) \<and>
                 (healed d peer0 \<longrightarrow>
                    projects (snd (ensureDefaultProject (nowIso env) d peer0)) = projects peer0)"
  proof (cases "store k")
    case None
    then show ?thesis using a o by (simp add: handleReset_def Let_def)
  next
    case (Some peer0)
    have "out = (Inr RefusedDefault, store(k \<mapsto> snd (ensureDefaultProject (nowIso env) d peer0)))"
      using a o Some assms(1) defaultProjectId_nonempty [of d]
      by (simp add: handleReset_def Let_def persistIfChanged_eq)
    then show ?thesis
      using Some ensureDefault_ids [of peer0 "nowIso env" d] healed_projects_kept [of d peer0 "nowIso env"]
      by (simp add: ensureDefault_fields)
  qed
next
  assume a: "toLowerCase (part parts 0) = ''wipe'' \<and> toLowerCase (part parts 1) = ''project'' \<and>
          toLowerCase (part parts 2) = ''confirm'' \<and> part parts 4 = defaultProjectId d"
  then have o: "out = wipeConfirmOne cfg env store k
                        (case store k of Some p \<Rightarrow> p | None \<Rightarrow> wipeBlankPeer) parts (messageId ctx)"
    using dispatch_wipe [of ctx cfg env store] assms by (simp add: handleWipe_def Let_def)
  from a assms(1) have p4: "part parts 4 = defaultProjectId (defaultProjectName cfg)" by simp
  from confirmOne_default [OF p4 refl, of env store k "messageId ctx"]
  show "(\<exists>r. fst out = Inr r \<and> refusal r) \<and>
            map_option projects (snd out k) = map_option projects (store k)"
    unfolding o .
qed

lemma findIdx_None: "findIdx P xs = None \<longleftrightarrow> \<not> list_ex P xs"
  by (induction xs) auto

lemma findProjectIdx_enabled [simp]:
  "findProjectIdx (p\<lparr>projectsEnabled := b\<rparr>) key = findProjectIdx p key"
  by (simp add: findProjectIdx_def Let_def split: option.splits)

lemma switchInPeer_refused:
  assumes "h = snd (ensureDefaultProject (nowIso env) (defaultProjectName cfg) base)"
      and "case findProject h key of None \<Rightarrow> True | Some p \<Rightarrow> archived p = Some True"
  shows "switchInPeer cfg env ctx key base = (ProjectNotFound key, h\<lparr>projectsEnabled := Some True\<rparr>)"
  using assms
  by (cases "findProjectIdx h key") (simp_all add: switchInPeer_def findProject_def Let_def)

lemma newInPeer_refused:
  assumes "h = snd (ensureDefaultProject (nowIso env) (defaultProjectName cfg) base)"
      and "\<not> list_ex (\<lambda>p. notArchived p \<and> toLowerCase (name p) = toLowerCase nm) (projects h)"
      and "int (length (filter notArchived (projects h))) \<ge> maxProjects cfg"
  shows "newInPeer cfg env ctx nm base =
           (ProjectLimitReached (maxProjects cfg), h\<lparr>projectsEnabled := Some True\<rparr>)"
  using assms findIdx_None [of "\<lambda>p. notArchived p \<and> toLowerCase (name p) = toLowerCase nm" "projects h"]
  by (simp add: newInPeer_def Let_def)

text \<open>
  Claim C2, as the code has it. Let \<open>h\<close> be the stored peer (a fresh peer when none of version
  1 is stored) after \<open>ensureDefaultProject\<close>. A \<open>switch\<close> whose key names no project of \<open>h\<close> or
  an archived one, and a \<open>new\<close> whose name no non-archived project of \<open>h\<close> bears while the
  non-archived projects have reached the configured maximum, reply with the error message
  only; the peer they store agrees with \<open>h\<close> in every field other than the projects-enabled
  flag.
\<close>

theorem refused_switch_new_state:
  assumes "d = defaultProjectName cfg" and "k = buildPeerKeyFromCommandCtx ctx"
      and "a = trim (case args ctx of Some x \<Rightarrow> x | None \<Rightarrow> [])"
      and "sub = toLowerCase (part (partsOf ctx) 0)"
      and "base = (case store k of
                     Some existing \<Rightarrow> if version existing = 1 then existing else freshPeer
                   | None \<Rightarrow> freshPeer)"
      and "h = snd (ensureDefaultProject (nowIso env) d base)"
      and "out = handleProjectsCommand cfg env store ctx"
  shows "(sub = ''switch'' \<and> trim (drop 6 a) \<noteq> [] \<and>
          (case findProject h (trim (drop 6 a)) of None \<Rightarrow> True | Some p \<Rightarrow> archived p = Some True) \<longrightarrow>
            (\<exists>peer'. out = (Inr (ProjectNotFound (trim (drop 6 a))), store(k \<mapsto> peer')) \<and>
                      peer'\<lparr>projectsEnabled := None\<rparr> = h\<lparr>projectsEnabled := None\<rparr>))
       \<and> (sub = ''new'' \<and> trim (drop 3 a) \<noteq> [] \<and>
          \<not> list_ex (\<lambda>p. notArchived p \<and> toLowerCase (name p) = toLowerCase (trim (drop 3 a)))
               (projects h) \<and>
          int (length (filter notArchived (projects h))) \<ge> maxProjects cfg \<longrightarrow>
            (\<exists>peer'. out = (Inr (ProjectLimitReached (maxProjects cfg)), store(k \<mapsto> peer')) \<and>
                      peer'\<lparr>projectsEnabled := None\<rparr> = h\<lparr>projectsEnabled := None\<rparr>))"
proof (rule conjI; rule impI)
  assume c: "sub = ''switch'' \<and> trim (drop 6 a) \<noteq> [] \<and>
          (case findProject h (trim (drop 6 a)) of None \<Rightarrow> True | Some p \<Rightarrow> archived p = Some True)"
  then have o: "out = handleSwitch cfg env store ctx k a"
    using dispatch_switch [of ctx cfg env store] assms by simp
  have sw: "switchInPeer cfg env ctx (trim (drop 6 a)) base =
      (ProjectNotFound (trim (drop 6 a)), h\<lparr>projectsEnabled := Some True\<rparr>)"
    using c assms(1,6) by (intro switchInPeer_refused) simp_all
  have "out = (Inr (ProjectNotFound (trim (drop 6 a))), store(k \<mapsto> h\<lparr>projectsEnabled := Some True\<rparr>))"
    using c sw assms(5) by (simp add: o handleSwitch_def Let_def withPeerState_def)
  then show "\<exists>peer'. out = (Inr (ProjectNotFound (trim (drop 6 a))), store(k \<mapsto> peer')) \<and>
                   peer'\<lparr>projectsEnabled := None\<rparr> = h\<lparr>projectsEnabled := None\<rparr>"
    by (intro exI [of _ "h\<lparr>projectsEnabled := Some True\<rparr>"]) simp
next
  assume c: "sub = ''new'' \<and> trim (drop 3 a) \<noteq> [] \<and>
          \<not> list_ex (\<lambda>p. notArchived p \<and> toLowerCase (name p) = toLowerCase (trim (drop 3 a)))
               (projects h) \<and>
          int (length (filter notArchived (projects h))) \<ge> maxProjects cfg"
  have "a \<noteq> ''new''"
  proof
    assume "a = ''new''"
    then have "trim (drop 3 a) = []" by (simp add: trim_def)
    with c show False by simp
  qed
  then have o: "out = handleNew cfg env store ctx k a"
    using c dispatch_new [of ctx cfg env store] assms by simp
  have nw: "newInPeer cfg env ctx (trim (drop 3 a)) base =
      (ProjectLimitReached (maxProjects cfg), h\<lparr>projectsEnabled := Some True\<rparr>)"
    using c assms(1,6) by (intro newInPeer_refused) simp_all
  have "out = (Inr (ProjectLimitReached (maxProjects cfg)),
               store(k \<mapsto> h\<lparr>projectsEnabled := Some True\<rparr>))"
    using c nw assms(5) by (simp add: o handleNew_def Let_def withPeerState_def)
  then show "\<exists>peer'. out = (Inr (ProjectLimitReached (maxProjects cfg)), store(k \<mapsto> peer')) \<and>
                   peer'\<lparr>projectsEnabled := None\<rparr> = h\<lparr>projectsEnabled := None\<rparr>"
    by (intro exI [of _ "h\<lparr>projectsEnabled := Some True\<rparr>"]) simp
qed

text \<open>Two instances on the example store: a switch to an unknown project, and a new
  project when two projects are the maximum.\<close>

theorem refused_switch_new_state_witness:
  "fst (handleProjectsCommand exCfg exEnv exStore (exCtx ''switch nosuch'')) =
     Inr (ProjectNotFound ''nosuch'') \<and>
   map_option (\<lambda>p. p\<lparr>projectsEnabled := None\<rparr>)
     (snd (handleProjectsCommand exCfg exEnv exStore (exCtx ''switch nosuch'')) ''telegram:42'') =
     Some (exPeer\<lparr>projectsEnabled := None\<rparr>) \<and>
   fst (handleProjectsCommand (exCfg\<lparr>maxProjects := 2\<rparr>) exEnv exStore (exCtx ''new Beta'')) =
     Inr (ProjectLimitReached 2) \<and>
   map_option (\<lambda>p. p\<lparr>projectsEnabled := None\<rparr>)
     (snd (handleProjectsCommand (exCfg\<lparr>maxProjects := 2\<rparr>) exEnv exStore (exCtx ''new Beta''))
        ''telegram:42'') =
     Some (exPeer\<lparr>projectsEnabled := None\<rparr>)"
proof -
  let ?ctx = "exCtx ''switch nosuch''"
  let ?a = "trim (case args ?ctx of Some x \<Rightarrow> x | None \<Rightarrow> [])"
  let ?k = "buildPeerKeyFromCommandCtx ?ctx"
  let ?base = "case exStore ?k of
                 Some existing \<Rightarrow> if version existing = 1 then existing else freshPeer
               | None \<Rightarrow> freshPeer"
  let ?h = "snd (ensureDefaultProject (nowIso exEnv) (defaultProjectName exCfg) ?base)"
  have hyp: "toLowerCase (part (partsOf ?ctx) 0) = ''switch'' \<and> trim (drop 6 ?a) \<noteq> [] \<and>
          (case findProject ?h (trim (drop 6 ?a)) of None \<Rightarrow> True | Some p \<Rightarrow> archived p = Some True)"
    by code_simp
  have k: "?k = ''telegram:42''" by code_simp
  have key: "trim (drop 6 ?a) = ''nosuch''" by code_simp
  have h: "snd (ensureDefaultProject (nowIso exEnv) (defaultProjectName exCfg)
              (case exStore ''telegram:42'' of
                 Some existing \<Rightarrow> if version existing = 1 then existing else freshPeer
               | None \<Rightarrow> freshPeer)) = exPeer"
    by code_simp
  from refused_switch_new_state [where ctx = ?ctx and cfg = exCfg and env = exEnv and store = exStore,
      OF refl refl refl refl refl refl refl, THEN conjunct1, THEN mp, OF hyp]
  obtain peer' where
    "handleProjectsCommand exCfg exEnv exStore ?ctx =
       (Inr (ProjectNotFound (trim (drop 6 ?a))), exStore(?k \<mapsto> peer'))"
    "peer'\<lparr>projectsEnabled := None\<rparr> = ?h\<lparr>projectsEnabled := None\<rparr>"
    by blast
  then have sw: "fst (handleProjectsCommand exCfg exEnv exStore (exCtx ''switch nosuch'')) =
     Inr (ProjectNotFound ''nosuch'') \<and>
   map_option (\<lambda>p. p\<lparr>projectsEnabled := None\<rparr>)
     (snd (handleProjectsCommand exCfg exEnv exStore (exCtx ''switch nosuch'')) ''telegram:42'') =
     Some (exPeer\<lparr>projectsEnabled := None\<rparr>)"
    unfolding key k by (simp add: h)
  let ?cfg2 = "exCfg\<lparr>maxProjects := 2\<rparr>"
  let ?ctx2 = "exCtx ''new Beta''"
  let ?a2 = "trim (case args ?ctx2 of Some x \<Rightarrow> x | None \<Rightarrow> [])"
  let ?k2 = "buildPeerKeyFromCommandCtx ?ctx2"
  let ?base2 = "case exStore ?k2 of
                 Some existing \<Rightarrow> if version existing = 1 then existing else freshPeer
               | None \<Rightarrow> freshPeer"
  let ?h2 = "snd (ensureDefaultProject (nowIso exEnv) (defaultProjectName ?cfg2) ?base2)"
  have hyp2: "toLowerCase (part (partsOf ?ctx2) 0) = ''new'' \<and> trim (drop 3 ?a2) \<noteq> [] \<and>
          \<not> list_ex (\<lambda>p. notArchived p \<and> toLowerCase (name p) = toLowerCase (trim (drop 3 ?a2)))
               (projects ?h2) \<and>
          int (length (filter notArchived (projects ?h2))) \<ge> maxProjects ?cfg2"
    by code_simp
  have k2: "?k2 = ''telegram:42''" by code_simp
  have h2: "snd (ensureDefaultProject (nowIso exEnv) (defaultProjectName (exCfg\<lparr>maxProjects := 2\<rparr>))
              (case exStore ''telegram:42'' of
                 Some existing \<Rightarrow> if version existing = 1 then existing else freshPeer
               | None \<Rightarrow> freshPeer)) = exPeer"
    by code_simp
  have m2: "maxProjects ?cfg2 = 2" by simp
  from refused_switch_new_state [where ctx = ?ctx2 and cfg = ?cfg2 and env = exEnv and store = exStore,
      OF refl refl refl refl refl refl refl, THEN conjunct2, THEN mp, OF hyp2]
  obtain peer2 where
    "handleProjectsCommand ?cfg2 exEnv exStore ?ctx2 =
       (Inr (ProjectLimitReached (maxProjects ?cfg2)), exStore(?k2 \<mapsto> peer2))"
    "peer2\<lparr>projectsEnabled := None\<rparr> = ?h2\<lparr>projectsEnabled := None\<rparr>"
    by blast
  then have nw: "fst (handleProjectsCommand ?cfg2 exEnv exStore ?ctx2) = Inr (ProjectLimitReached 2) \<and>
   map_option (\<lambda>p. p\<lparr>projectsEnabled := None\<rparr>)
     (snd (handleProjectsCommand ?cfg2 exEnv exStore ?ctx2) ''telegram:42'') =
     Some (exPeer\<lparr>projectsEnabled := None\<rparr>)"
    unfolding k2 m2 by (simp add: h)
  from sw nw show ?thesis by simp
qed

text \<open>
  The claim as stated fails: a refused \<open>switch\<close> for a peer with no stored state stores a
  peer, holding the default project.
\<close>

theorem refused_switch_creates_peer_counterexample:
  "fst (handleProjectsCommand exCfg exEnv Map.empty (exCtx ''switch nosuch'')) =
     Inr (ProjectNotFound ''nosuch'') \<and>
   (Map.empty :: Store) ''telegram:42'' = None \<and>
   map_option (\<lambda>p. (projectsEnabled p, map id' (projects p)))
     (snd (handleProjectsCommand exCfg exEnv Map.empty (exCtx ''switch nosuch'')) ''telegram:42'') =
     Some (Some True, [''proj-general''])"
  by code_simp

text \<open>Two instances: confirming with the armed nonce but the default project as target,
  and arming a wipe of the default project.\<close>

theorem default_project_wipe_refused_witness:
  "(\<exists>r. fst (handleProjectsCommand exCfg exEnv exStoreArmed
              (exCtx ''wipe project confirm 0a0b0c0d proj-general'')) = Inr r \<and> refusal r) \<and>
   map_option projects (snd (handleProjectsCommand exCfg exEnv exStoreArmed
              (exCtx ''wipe project confirm 0a0b0c0d proj-general'')) ''telegram:42'') =
     Some [exGeneral, exAlpha] \<and>
   fst (handleProjectsCommand exCfg exEnv exStore (exCtx ''reset remove proj-general'')) =
     Inr RefusedDefault \<and>
   map_option projects
     (snd (handleProjectsCommand exCfg exEnv exStore (exCtx ''reset remove proj-general''))
        ''telegram:42'') = Some [exGeneral, exAlpha]"
proof -
  let ?ctx = "exCtx ''wipe project confirm 0a0b0c0d proj-general''"
  have hyp: "toLowerCase (part (partsOf ?ctx) 0) = ''wipe'' \<and>
      toLowerCase (part (partsOf ?ctx) 1) = ''project'' \<and>
      toLowerCase (part (partsOf ?ctx) 2) = ''confirm'' \<and>
      part (partsOf ?ctx) 4 = defaultProjectId (defaultProjectName exCfg)"
    by code_simp
  have k: "buildPeerKeyFromCommandCtx ?ctx = ''telegram:42''" by code_simp
  have s: "map_option projects (exStoreArmed ''telegram:42'') = Some [exGeneral, exAlpha]"
    by code_simp
  have c: "(\<exists>r. fst (handleProjectsCommand exCfg exEnv exStoreArmed ?ctx) = Inr r \<and> refusal r) \<and>
     map_option projects (snd (handleProjectsCommand exCfg exEnv exStoreArmed ?ctx) ''telegram:42'') =
       Some [exGeneral, exAlpha]"
    using default_project_wipe_refused [where ctx = ?ctx and cfg = exCfg and env = exEnv
      and store = exStoreArmed, OF refl refl refl refl, THEN conjunct2, THEN mp, OF hyp]
    unfolding k s .
  let ?ctx2 = "exCtx ''reset remove proj-general''"
  have hyp2: "toLowerCase (part (partsOf ?ctx2) 0) = ''reset'' \<and>
      toLowerCase (part (partsOf ?ctx2) 1) = ''remove'' \<and>
      part (partsOf ?ctx2) 2 = defaultProjectId (defaultProjectName exCfg)"
    by code_simp
  have k2: "buildPeerKeyFromCommandCtx ?ctx2 = ''telegram:42''" by code_simp
  have s2: "exStore ''telegram:42'' = Some exPeer" by code_simp
  have h2: "snd (ensureDefaultProject (nowIso exEnv) (defaultProjectName exCfg) exPeer) = exPeer"
    by code_simp
  have p2: "projects exPeer = [exGeneral, exAlpha]" by code_simp
  from default_project_wipe_refused [where ctx = ?ctx2 and cfg = exCfg and env = exEnv
      and store = exStore, OF refl refl refl refl, THEN conjunct1, THEN mp, OF hyp2]
  have "handleProjectsCommand exCfg exEnv exStore ?ctx2 =
          (Inr RefusedDefault, exStore(''telegram:42'' \<mapsto> exPeer))"
    unfolding k2 by (simp add: s2 h2)
  then have a: "fst (handleProjectsCommand exCfg exEnv exStore ?ctx2) = Inr RefusedDefault \<and>
     map_option projects (snd (handleProjectsCommand exCfg exEnv exStore ?ctx2) ''telegram:42'') =
       Some [exGeneral, exAlpha]"
    by (simp add: p2)
  from c a show ?thesis by simp
qed

text \<open>
  The claim as stated fails: after \<open>wipe\<close> on an unknown peer the stored collection is empty,
  and the refused \<open>reset remove proj-general\<close> that follows stores the default project.
\<close>

theorem default_project_arm_heals_counterexample:
  "fst (handleProjectsCommand exCfg exEnv
          (snd (handleProjectsCommand exCfg exEnv Map.empty (exCtx ''wipe'')))
          (exCtx ''reset remove proj-general'')) = Inr RefusedDefault \<and>
   map_option projects
     (snd (handleProjectsCommand exCfg exEnv Map.empty (exCtx ''wipe'')) ''telegram:42'') = Some [] \<and>
   map_option (\<lambda>p. map id' (projects p))
     (snd (handleProjectsCommand exCfg exEnv
             (snd (handleProjectsCommand exCfg exEnv Map.empty (exCtx ''wipe'')))
             (exCtx ''reset remove proj-general'')) ''telegram:42'') = Some [''proj-general'']"
  by code_simp

end
